theory Spec2Isabelle
  imports Complex_Main "HOL-Library.AList"
begin

section \<open>Python values\<close>

text \<open>
  The values that \<^verbatim>\<open>json.loads\<close> and \<^verbatim>\<open>response.json()\<close> hand to the program:
  \<^verbatim>\<open>None\<close>, booleans, integers, floats, strings, lists and dictionaries. A dictionary
  is the list of its items in insertion order. A Python \<^verbatim>\<open>str\<close> is held as the bytes of
  its UTF-8 encoding, which keeps equality of strings; a float is held as the rational
  it is.
\<close>

datatype json =
    JNull
  | JBool bool
  | JInt int
  | JFloat rat
  | JStr string
  | JArr "json list"
  | JObj "(string \<times> json) list"

text \<open>Truth value testing, as in \<^verbatim>\<open>if x:\<close> and \<^verbatim>\<open>not x\<close>.\<close>

fun truthy :: "json \<Rightarrow> bool" where
  "truthy JNull = False"
| "truthy (JBool b) = b"
| "truthy (JInt i) = (i \<noteq> 0)"
| "truthy (JFloat r) = (r \<noteq> 0)"
| "truthy (JStr s) = (s \<noteq> [])"
| "truthy (JArr xs) = (xs \<noteq> [])"
| "truthy (JObj kvs) = (kvs \<noteq> [])"

text \<open>
  \<^verbatim>\<open>str(x)\<close>: the identity on strings. The text Python prints for any other value
  (numbers, lists, dictionaries) is given by the parameter \<open>repr\<close>.
\<close>

definition py_str :: "(json \<Rightarrow> string) \<Rightarrow> json \<Rightarrow> string" where
  "py_str repr v = (case v of JStr s \<Rightarrow> s | _ \<Rightarrow> repr v)"

text \<open>
  \<^verbatim>\<open>s.strip()\<close>: the whitespace characters are removed at both ends. They are the
  characters Python's \<^verbatim>\<open>str.isspace\<close> accepts, listed here by their UTF-8 encodings:
  U+0009 to U+000D, U+001C to U+0020, U+0085, U+00A0, U+1680, U+2000 to U+200A, U+2028,
  U+2029, U+202F, U+205F and U+3000. No encoding in the list is the beginning or the end
  of the encoding of another character, so removing the encodings at the ends of the
  bytes removes the characters at the ends of the text.
\<close>

definition whitespace :: "string list" where
  "whitespace =
     [[CHR 0x09], [CHR 0x0A], [CHR 0x0B], [CHR 0x0C], [CHR 0x0D],
      [CHR 0x1C], [CHR 0x1D], [CHR 0x1E], [CHR 0x1F], [CHR 0x20],
      [CHR 0xC2, CHR 0x85], [CHR 0xC2, CHR 0xA0], [CHR 0xE1, CHR 0x9A, CHR 0x80],
      [CHR 0xE2, CHR 0x80, CHR 0x80], [CHR 0xE2, CHR 0x80, CHR 0x81],
      [CHR 0xE2, CHR 0x80, CHR 0x82], [CHR 0xE2, CHR 0x80, CHR 0x83],
      [CHR 0xE2, CHR 0x80, CHR 0x84], [CHR 0xE2, CHR 0x80, CHR 0x85],
      [CHR 0xE2, CHR 0x80, CHR 0x86], [CHR 0xE2, CHR 0x80, CHR 0x87],
      [CHR 0xE2, CHR 0x80, CHR 0x88], [CHR 0xE2, CHR 0x80, CHR 0x89],
      [CHR 0xE2, CHR 0x80, CHR 0x8A], [CHR 0xE2, CHR 0x80, CHR 0xA8],
      [CHR 0xE2, CHR 0x80, CHR 0xA9], [CHR 0xE2, CHR 0x80, CHR 0xAF],
      [CHR 0xE2, CHR 0x81, CHR 0x9F], [CHR 0xE3, CHR 0x80, CHR 0x80]]"

definition startswith :: "string \<Rightarrow> string \<Rightarrow> bool" where
  "startswith s p = (take (length p) s = p)"

text \<open>The number of bytes of the first of the patterns \<open>ps\<close> that \<open>s\<close> begins with, and 0
  when it begins with none of them.\<close>

definition leading :: "string list \<Rightarrow> string \<Rightarrow> nat" where
  "leading ps s = (case find (startswith s) ps of None \<Rightarrow> 0 | Some p \<Rightarrow> length p)"

function strip_leading :: "string list \<Rightarrow> string \<Rightarrow> string" where
  "strip_leading ps s =
     (if leading ps s = 0 then s else strip_leading ps (drop (leading ps s) s))"
  by pat_completeness auto
termination
proof (relation "measure (\<lambda>(ps, s). length s)")
  show "wf (measure (\<lambda>(ps, s). length s))"
    by simp
next
  fix ps :: "string list" and s :: string
  assume pos: "leading ps s \<noteq> 0"
  then obtain p where "find (startswith s) ps = Some p" and "p \<noteq> []"
    by (auto simp add: leading_def split: option.splits)
  then have "startswith s p"
    by (auto simp add: find_Some_iff)
  with \<open>p \<noteq> []\<close> have "s \<noteq> []"
    by (auto simp add: startswith_def)
  with pos show "((ps, drop (leading ps s) s), (ps, s)) \<in> measure (\<lambda>(ps, s). length s)"
    by simp
qed

definition lstrip :: "string \<Rightarrow> string" where
  "lstrip s = strip_leading whitespace s"

definition rstrip :: "string \<Rightarrow> string" where
  "rstrip s = rev (strip_leading (map rev whitespace) (rev s))"

definition strip :: "string \<Rightarrow> string" where
  "strip s = rstrip (lstrip s)"

text \<open>
  \<^verbatim>\<open>len(s)\<close> and \<^verbatim>\<open>s[:n]\<close> count characters: in the UTF-8 encoding, the bytes that
  are no continuation bytes (\<open>0x80\<close> to \<open>0xBF\<close>).
\<close>

definition is_continuation :: "char \<Rightarrow> bool" where
  "is_continuation c = (0x80 \<le> (of_char c :: nat) \<and> (of_char c :: nat) < 0xC0)"

definition py_len :: "string \<Rightarrow> nat" where
  "py_len s = length (filter (\<lambda>c. \<not> is_continuation c) s)"

fun py_take :: "nat \<Rightarrow> string \<Rightarrow> string" where
  "py_take n [] = []"
| "py_take n (c # cs) =
     (if is_continuation c then c # py_take n cs
      else (case n of 0 \<Rightarrow> [] | Suc m \<Rightarrow> c # py_take m cs))"

text \<open>Dictionaries: \<^verbatim>\<open>k in d\<close>, \<^verbatim>\<open>d.get(k, default)\<close>, \<^verbatim>\<open>d[k] = v\<close> and \<^verbatim>\<open>del d[k]\<close>.\<close>

definition has_key :: "('k \<times> 'v) list \<Rightarrow> 'k \<Rightarrow> bool" where
  "has_key d k = (map_of d k \<noteq> None)"

definition dict_get :: "('k \<times> 'v) list \<Rightarrow> 'k \<Rightarrow> 'v \<Rightarrow> 'v" where
  "dict_get d k dflt = (case map_of d k of None \<Rightarrow> dflt | Some v \<Rightarrow> v)"

definition dict_set :: "'k \<Rightarrow> 'v \<Rightarrow> ('k \<times> 'v) list \<Rightarrow> ('k \<times> 'v) list" where
  "dict_set k v d = AList.update k v d"

definition dict_del :: "'k \<Rightarrow> ('k \<times> 'v) list \<Rightarrow> ('k \<times> 'v) list" where
  "dict_del k d = AList.delete k d"

text \<open>
  Python's \<^verbatim>\<open>float\<close> is the IEEE 754 binary64 format. A float is held as the rational it
  is, and \<open>to_double x\<close> is the float nearest to \<open>x\<close>, a tie going to the even mantissa:
  what a division, a multiplication or the reading of a decimal gives when its exact
  result is \<open>x\<close>. \<open>bit_length\<close> is \<^verbatim>\<open>int.bit_length\<close> on a positive integer, and \<open>floor_log2 x\<close> is the exponent
  \<open>e\<close> of a positive \<open>x\<close>: \<open>2 powi e \<le> x < 2 powi (e + 1)\<close>. The floats with this exponent
  are \<open>2 powi (e - 52)\<close> apart, and below \<open>2 powi (- 1022)\<close> the spacing stays what it is
  there. (Overflow is left out: the program rounds quotients of lengths of lists and
  response times, which are far from \<open>2 powi 1024\<close>.)
\<close>

definition round_half_even :: "rat \<Rightarrow> int" where
  "round_half_even x =
     (let f = \<lfloor>x\<rfloor>; d = x - of_int f
      in if d < 1 / 2 then f
         else if 1 / 2 < d then f + 1
         else if even f then f else f + 1)"

function bit_length :: "int \<Rightarrow> nat" where
  "bit_length n = (if n \<le> 0 then 0 else Suc (bit_length (n div 2)))"
  by pat_completeness auto
termination
  by (relation "measure nat") auto

definition floor_log2 :: "rat \<Rightarrow> int" where
  "floor_log2 x =
     (let k = int (bit_length (fst (quotient_of x)))
              - int (bit_length (snd (quotient_of x)))
      in if 2 powi k \<le> x then k else k - 1)"

definition to_double :: "rat \<Rightarrow> rat" where
  "to_double x =
     (if x = 0 then 0
      else (let e = max (floor_log2 \<bar>x\<bar>) (- 1022);
                u = 2 powi (e - 52)
            in of_int (round_half_even (x / u)) * u))"

text \<open>
  \<open>round_decimal x n\<close> is the multiple of \<open>10\<^sup>-\<^sup>n\<close> nearest to \<open>x\<close>, a tie going to the even
  neighbour. \<^verbatim>\<open>round(x, n)\<close> on a float \<open>x\<close> is the float nearest to that decimal: CPython
  writes the exact value of \<open>x\<close> with \<open>n\<close> decimals, correctly rounded, and reads the
  decimal back.
\<close>

definition round_decimal :: "rat \<Rightarrow> nat \<Rightarrow> rat" where
  "round_decimal x n = of_int (round_half_even (x * 10 ^ n)) / 10 ^ n"

definition py_round :: "rat \<Rightarrow> nat \<Rightarrow> rat" where
  "py_round x n = to_double (round_decimal x n)"


section \<open>Conversation State Store (\<^verbatim>\<open>conversation_manager.py\<close>)\<close>

record turn_record =
  turn_number :: int
  user_question :: string
  chatflow_reply :: string
  api_status :: string
  error_details :: string
  response_time :: rat
  timestamp :: string

text \<open>
  The three dictionaries of \<^verbatim>\<open>ConversationManager\<close>, each keyed by the conversation
  group id. The logger is left out: it is written to and never read.
\<close>

record conversation_manager =
  conversation_mapping :: "(string \<times> string) list"
  conversation_turns :: "(string \<times> turn_record list) list"
  conversation_created_time :: "(string \<times> string) list"

definition new_conversation_manager :: conversation_manager where
  "new_conversation_manager =
     \<lparr>conversation_mapping = [], conversation_turns = [], conversation_created_time = []\<rparr>"

definition get_conversation_id :: "conversation_manager \<Rightarrow> string \<Rightarrow> string option" where
  "get_conversation_id cm conversation_group_id =
     map_of (conversation_mapping cm) conversation_group_id"

text \<open>\<open>now\<close> is the formatted reading of the clock.\<close>

definition set_conversation_id ::
  "string \<Rightarrow> conversation_manager \<Rightarrow> string \<Rightarrow> string \<Rightarrow> conversation_manager" where
  "set_conversation_id now cm conversation_group_id conversation_id =
     (let cm1 = (if \<not> has_key (conversation_mapping cm) conversation_group_id
                 then cm\<lparr>conversation_created_time :=
                           dict_set conversation_group_id now (conversation_created_time cm)\<rparr>
                 else cm)
      in cm1\<lparr>conversation_mapping :=
                dict_set conversation_group_id conversation_id (conversation_mapping cm1)\<rparr>)"

definition is_new_conversation :: "conversation_manager \<Rightarrow> string \<Rightarrow> bool" where
  "is_new_conversation cm conversation_group_id =
     (\<not> has_key (conversation_mapping cm) conversation_group_id)"


definition add_turn ::
  "string \<Rightarrow> conversation_manager \<Rightarrow> string \<Rightarrow> int \<Rightarrow> string \<Rightarrow> string \<Rightarrow> string \<Rightarrow>
   string \<Rightarrow> rat \<Rightarrow> conversation_manager" where
  "add_turn now cm conversation_group_id tn question reply status err rt =
     (let turns1 = (if \<not> has_key (conversation_turns cm) conversation_group_id
                    then dict_set conversation_group_id [] (conversation_turns cm)
                    else conversation_turns cm);
          turn = \<lparr>turn_number = tn, user_question = question, chatflow_reply = reply,
                  api_status = status, error_details = err, response_time = rt,
                  timestamp = now\<rparr>
      in cm\<lparr>conversation_turns :=
               dict_set conversation_group_id
                 (dict_get turns1 conversation_group_id [] @ [turn]) turns1\<rparr>)"

definition get_last_turn :: "conversation_manager \<Rightarrow> string \<Rightarrow> turn_record option" where
  "get_last_turn cm conversation_group_id =
     (let turns = dict_get (conversation_turns cm) conversation_group_id []
      in if turns \<noteq> [] then Some (last turns) else None)"



definition clear_conversation :: "conversation_manager \<Rightarrow> string \<Rightarrow> conversation_manager" where
  "clear_conversation cm conversation_group_id =
     \<lparr>conversation_mapping = dict_del conversation_group_id (conversation_mapping cm),
      conversation_turns = dict_del conversation_group_id (conversation_turns cm),
      conversation_created_time =
        dict_del conversation_group_id (conversation_created_time cm)\<rparr>"

definition clear_all_conversations :: "conversation_manager \<Rightarrow> conversation_manager" where
  "clear_all_conversations cm = new_conversation_manager"

text \<open>The status text that \<^verbatim>\<open>get_statistics\<close> counts as a success: the two-character
  word U+6210 U+529F, in UTF-8.\<close>

definition STATUS_SUCCESS_ZH :: string where
  "STATUS_SUCCESS_ZH = [CHR 0xE6, CHR 0x88, CHR 0x90, CHR 0xE5, CHR 0x8A, CHR 0x9F]"

record statistics =
  total_conversations :: nat
  total_turns :: nat
  average_turns_per_conversation :: rat
  successful_turns :: nat
  failed_turns :: nat
  success_rate :: rat

text \<open>The two nested counting loops of \<^verbatim>\<open>get_statistics\<close>; the pair is
  \<open>(successful_turns, failed_turns)\<close>.\<close>

fun count_turns :: "turn_record list \<Rightarrow> nat \<times> nat \<Rightarrow> nat \<times> nat" where
  "count_turns [] acc = acc"
| "count_turns (turn # turns) (s, f) =
     (if api_status turn = STATUS_SUCCESS_ZH then count_turns turns (s + 1, f)
      else count_turns turns (s, f + 1))"

fun count_groups :: "(string \<times> turn_record list) list \<Rightarrow> nat \<times> nat \<Rightarrow> nat \<times> nat" where
  "count_groups [] acc = acc"
| "count_groups ((g, turns) # rest) acc = count_groups rest (count_turns turns acc)"

definition get_statistics :: "conversation_manager \<Rightarrow> statistics" where
  "get_statistics cm =
     (let n_conversations = length (conversation_mapping cm);
          n_turns = sum_list (map (\<lambda>(g, turns). length turns) (conversation_turns cm));
          avg_turns = (if 0 < n_conversations
                       then to_double (of_nat n_turns / of_nat n_conversations) else 0);
          (n_successful, n_failed) = count_groups (conversation_turns cm) (0, 0);
          rate = (if 0 < n_turns
                  then to_double (to_double (of_nat n_successful / of_nat n_turns) * 100)
                  else 0)
      in \<lparr>total_conversations = n_conversations,
          total_turns = n_turns,
          average_turns_per_conversation = py_round avg_turns 2,
          successful_turns = n_successful,
          failed_turns = n_failed,
          success_rate = py_round rate 2\<rparr>)"

text \<open>Two stores for the examples: a group with its first turn recorded, and a group
  with a successful and a failed turn.\<close>

definition one_turn_store :: conversation_manager where
  "one_turn_store =
     add_turn ''2024-01-01 10:00:00'' new_conversation_manager ''g1'' 1 ''hello'' ''hi''
       STATUS_SUCCESS_ZH [] 1"

definition example_store :: conversation_manager where
  "example_store =
     add_turn ''2024-01-01 10:00:07'' one_turn_store ''g1'' 2 ''again'' [] ''failed''
       ''boom'' 0"


section \<open>Chat API Client (\<^verbatim>\<open>dify_client.py\<close>)\<close>

text \<open>
  Every failure of the client is a \<^verbatim>\<open>DifyAPIError\<close>; the constructors tell the
  places that raise it in \<^verbatim>\<open>_handle_streaming_response\<close> apart. An exception raised
  inside the loop over the lines (a decoded line that is no dictionary has no
  \<^verbatim>\<open>get\<close>; a chunk that is no string cannot be added to the text; the error raised for
  an \<^verbatim>\<open>error\<close> event) is caught by the \<^verbatim>\<open>except Exception\<close> around the loop and
  raised again as a \<^verbatim>\<open>DifyAPIError\<close>.
\<close>

datatype dify_api_error =
    HttpStatusError nat
  | StreamErrorEvent json
  | StreamLineNotADict
  | StreamAnswerNotAString

text \<open>The default message of an \<^verbatim>\<open>error\<close> event: the four characters U+672A U+77E5
  U+9519 U+8BEF, in UTF-8.\<close>

definition UNKNOWN_ERROR_ZH :: string where
  "UNKNOWN_ERROR_ZH = [CHR 0xE6, CHR 0x9C, CHR 0xAA, CHR 0xE7, CHR 0x9F, CHR 0xA5,
                       CHR 0xE9, CHR 0x94, CHR 0x99, CHR 0xE8, CHR 0xAF, CHR 0xAF]"

text \<open>The three local variables of the loop.\<close>

record stream_vars =
  full_answer :: string
  conversation_id :: json
  message_id :: json

text \<open>
  The loop over \<^verbatim>\<open>response.iter_lines\<close>. \<open>loads\<close> is \<^verbatim>\<open>json.loads\<close>, with \<open>None\<close>
  for a \<^verbatim>\<open>JSONDecodeError\<close> (the line is logged and skipped). \<open>Inr\<close> is the state of
  the variables when the loop is left, at \<^verbatim>\<open>message_end\<close> or at the end of the lines.
\<close>

fun stream_lines ::
  "(string \<Rightarrow> json option) \<Rightarrow> string list \<Rightarrow> stream_vars \<Rightarrow> dify_api_error + stream_vars" where
  "stream_lines loads [] vars = Inr vars"
| "stream_lines loads (line # rest) vars =
     (if line \<noteq> [] \<and> startswith line ''data: '' then
        (let json_str = strip (drop 6 line) in
         if json_str \<noteq> [] then
           (case loads json_str of
              None \<Rightarrow> stream_lines loads rest vars
            | Some (JObj event_data) \<Rightarrow>
                (let event_type = dict_get event_data ''event'' (JStr []) in
                 if event_type = JStr ''message'' then
                   (case dict_get event_data ''answer'' (JStr []) of
                      JStr answer_chunk \<Rightarrow>
                        stream_lines loads rest
                          \<lparr>full_answer = full_answer vars @ answer_chunk,
                           conversation_id =
                             (if \<not> truthy (conversation_id vars)
                              then dict_get event_data ''conversation_id'' JNull
                              else conversation_id vars),
                           message_id =
                             (if \<not> truthy (message_id vars)
                              then dict_get event_data ''message_id'' JNull
                              else message_id vars)\<rparr>
                    | _ \<Rightarrow> Inl StreamAnswerNotAString)
                 else if event_type = JStr ''message_end'' then
                   Inr \<lparr>full_answer = full_answer vars,
                        conversation_id =
                          (if \<not> truthy (conversation_id vars)
                           then dict_get event_data ''conversation_id'' JNull
                           else conversation_id vars),
                        message_id =
                          (if \<not> truthy (message_id vars)
                           then dict_get event_data ''id'' JNull
                           else message_id vars)\<rparr>
                 else if event_type = JStr ''error'' then
                   Inl (StreamErrorEvent
                          (dict_get event_data ''message'' (JStr UNKNOWN_ERROR_ZH)))
                 else stream_lines loads rest vars)
            | Some _ \<Rightarrow> Inl StreamLineNotADict)
         else stream_lines loads rest vars)
      else stream_lines loads rest vars)"

text \<open>
  \<^verbatim>\<open>_handle_streaming_response\<close>, from the status code and the lines of the HTTP
  response to the dictionary it returns. The elapsed time it returns beside the
  dictionary is a reading of the clock and is left out.
\<close>

definition handle_streaming_response ::
  "(string \<Rightarrow> json option) \<Rightarrow> nat \<Rightarrow> string list \<Rightarrow> dify_api_error + (string \<times> json) list" where
  "handle_streaming_response loads status_code lines =
     (if status_code \<noteq> 200 then Inl (HttpStatusError status_code)
      else
        (case stream_lines loads lines
                \<lparr>full_answer = [], conversation_id = JNull, message_id = JNull\<rparr> of
           Inl e \<Rightarrow> Inl e
         | Inr vars \<Rightarrow>
             Inr [(''answer'', JStr (full_answer vars)),
                  (''conversation_id'', conversation_id vars),
                  (''message_id'', message_id vars)]))"

fun extract_fallback :: "(json \<Rightarrow> string) \<Rightarrow> (string \<times> json) list \<Rightarrow> string list \<Rightarrow> string" where
  "extract_fallback repr response_data [] = []"
| "extract_fallback repr response_data (field # others) =
     (if has_key response_data field \<and> truthy (dict_get response_data field JNull)
      then strip (py_str repr (dict_get response_data field JNull))
      else extract_fallback repr response_data others)"

definition extract_answer :: "(json \<Rightarrow> string) \<Rightarrow> (string \<times> json) list \<Rightarrow> string" where
  "extract_answer repr response_data =
     (if has_key response_data ''answer''
      then strip (py_str repr (dict_get response_data ''answer'' JNull))
      else extract_fallback repr response_data
             [''message'', ''content'', ''text'', ''response''])"

definition extract_conversation_id ::
  "(json \<Rightarrow> string) \<Rightarrow> (string \<times> json) list \<Rightarrow> string option" where
  "extract_conversation_id repr response_data =
     (let cid = dict_get response_data ''conversation_id'' JNull
      in if truthy cid then Some (strip (py_str repr cid)) else None)"

subsection \<open>The streaming rule in the words of the specification\<close>

text \<open>
  The events of a stream: the decoded payloads of the lines that start with
  \<^verbatim>\<open>data: \<close>, carry a payload and decode.
\<close>

definition line_event :: "(string \<Rightarrow> json option) \<Rightarrow> string \<Rightarrow> json option" where
  "line_event loads line =
     (if line \<noteq> [] \<and> startswith line ''data: '' \<and> strip (drop 6 line) \<noteq> []
      then loads (strip (drop 6 line)) else None)"

definition decoded_events :: "(string \<Rightarrow> json option) \<Rightarrow> string list \<Rightarrow> json list" where
  "decoded_events loads lines = List.map_filter (line_event loads) lines"

definition event_field :: "json \<Rightarrow> string \<Rightarrow> json \<Rightarrow> json" where
  "event_field ev k dflt = (case ev of JObj kvs \<Rightarrow> dict_get kvs k dflt | _ \<Rightarrow> dflt)"

definition is_event :: "string \<Rightarrow> json \<Rightarrow> bool" where
  "is_event name ev = (event_field ev ''event'' (JStr []) = JStr name)"

definition before_end :: "json list \<Rightarrow> json list" where
  "before_end evs = takeWhile (\<lambda>ev. \<not> is_event ''message_end'' ev) evs"

definition end_event :: "json list \<Rightarrow> json list" where
  "end_event evs = take 1 (dropWhile (\<lambda>ev. \<not> is_event ''message_end'' ev) evs)"

definition message_events :: "json list \<Rightarrow> json list" where
  "message_events evs = filter (is_event ''message'') (before_end evs)"

definition text_of :: "json \<Rightarrow> string" where
  "text_of v = (case v of JStr s \<Rightarrow> s | _ \<Rightarrow> [])"

text \<open>The answer: the chunks of the \<^verbatim>\<open>message\<close> events read before the first
  \<^verbatim>\<open>message_end\<close>, joined in the order of the stream.\<close>

definition spec_answer :: "json list \<Rightarrow> string" where
  "spec_answer evs =
     concat (map (\<lambda>ev. text_of (event_field ev ''answer'' (JStr []))) (message_events evs))"

text \<open>An id is taken from the first event that provides one (a value that counts as
  true); when none does, the variable holds what the last event left in it.\<close>

definition first_provided :: "json list \<Rightarrow> json" where
  "first_provided vals =
     (case filter truthy vals of
        v # _ \<Rightarrow> v
      | [] \<Rightarrow> (if vals = [] then JNull else last vals))"

definition spec_conversation_id :: "json list \<Rightarrow> json" where
  "spec_conversation_id evs =
     first_provided
       (map (\<lambda>ev. event_field ev ''conversation_id'' JNull) (message_events evs) @
        map (\<lambda>ev. event_field ev ''conversation_id'' JNull) (end_event evs))"

definition spec_message_id :: "json list \<Rightarrow> json" where
  "spec_message_id evs =
     first_provided
       (map (\<lambda>ev. event_field ev ''message_id'' JNull) (message_events evs) @
        map (\<lambda>ev. event_field ev ''id'' JNull) (end_event evs))"

text \<open>A stream the rule speaks of: up to the first \<^verbatim>\<open>message_end\<close>, every event is a
  dictionary, none is an \<^verbatim>\<open>error\<close> event, and the \<^verbatim>\<open>answer\<close> of a \<^verbatim>\<open>message\<close>
  event, when present, is a string.\<close>

definition plain_event :: "json \<Rightarrow> bool" where
  "plain_event ev =
     (case ev of
        JObj kvs \<Rightarrow>
          \<not> is_event ''error'' ev \<and>
          (if is_event ''message'' ev
           then (case dict_get kvs ''answer'' (JStr []) of JStr s \<Rightarrow> True | _ \<Rightarrow> False)
           else True)
      | _ \<Rightarrow> False)"

definition plain_stream :: "json list \<Rightarrow> bool" where
  "plain_stream evs = list_all plain_event (before_end evs)"

text \<open>A decoder for the four lines of the example of the specification.\<close>

definition example_lines :: "string list" where
  \<open>example_lines =
     [''data: {"event": "message", "answer": "Hel", "conversation_id": "conv-abc"}'',
      '''',
      ''data: {"event": "message", "answer": "lo ", "message_id": "m-1"}'',
      ''data: {"event": "message", "answer": "world"}'',
      ''data: {"event": "message_end", "id": "m-2", "conversation_id": "conv-xyz"}'',
      ''data: {"event": "message", "answer": "!"}'']\<close>

definition example_loads :: "string \<Rightarrow> json option" where
  \<open>example_loads =
     map_of
       [(''{"event": "message", "answer": "Hel", "conversation_id": "conv-abc"}'',
           JObj [(''event'', JStr ''message''), (''answer'', JStr ''Hel''),
                 (''conversation_id'', JStr ''conv-abc'')]),
        (''{"event": "message", "answer": "lo ", "message_id": "m-1"}'',
           JObj [(''event'', JStr ''message''), (''answer'', JStr ''lo ''),
                 (''message_id'', JStr ''m-1'')]),
        (''{"event": "message", "answer": "world"}'',
           JObj [(''event'', JStr ''message''), (''answer'', JStr ''world'')]),
        (''{"event": "message_end", "id": "m-2", "conversation_id": "conv-xyz"}'',
           JObj [(''event'', JStr ''message_end''), (''id'', JStr ''m-2''),
                 (''conversation_id'', JStr ''conv-xyz'')]),
        (''{"event": "message", "answer": "!"}'',
           JObj [(''event'', JStr ''message''), (''answer'', JStr ''!'')])]\<close>


section \<open>The command-line engine (\<^verbatim>\<open>main.py\<close>)\<close>

text \<open>
  An exception, as the retry loop sees it: its class and the text \<^verbatim>\<open>str(e)\<close>. The loop
  catches \<^verbatim>\<open>Exception\<close> and never looks at the class.
\<close>

record py_exception =
  exc_type :: string
  exc_message :: string

text \<open>The arguments of \<^verbatim>\<open>send_chat_message\<close>. \<open>rq_inputs\<close> is the text of the extra
  inputs of the case, \<^verbatim>\<open>{}\<close> when it has none.\<close>

record request =
  rq_query :: string
  rq_user_id :: string
  rq_conversation_id :: "string option"
  rq_inputs :: string

text \<open>
  The remote API is outside the program. A client is a function from a request and the
  state of the world to the outcome of \<^verbatim>\<open>send_chat_message\<close> (an exception, or the
  response dictionary and the elapsed time) and the next state of the world.
\<close>

type_synonym api_outcome = "py_exception + ((string \<times> json) list \<times> rat)"

type_synonym 'w client = "request \<Rightarrow> 'w \<Rightarrow> api_outcome \<times> 'w"

record test_case =
  tc_conversation_group_id :: string
  tc_turn_number :: int
  tc_user_question :: string
  tc_expected_reply :: string

record case_result =
  r_conversation_id :: string
  r_turn_number :: int
  r_user_question :: string
  r_expected_reply :: string
  r_chatflow_reply :: string
  r_response_time :: rat
  r_api_status :: string
  r_error_details :: string
  r_call_time :: string

text \<open>What the engine does to the outside, in the order in which it does it: a call of
  the client, the warning logged before a retry (with the number of the failed attempt),
  the sleep before a retry, the sleep between two cases, the sleep of the pause loop, and
  the write of one result to the result sink.\<close>

datatype effect =
    ApiCall request
  | RetryWarning nat py_exception
  | RetrySleep nat
  | CaseSleep nat
  | PauseSleep nat
  | AppendResult case_result

record tool_stats =
  total_cases :: nat
  processed_cases :: nat
  successful_cases :: nat
  failed_cases :: nat

record tool =
  tool_cm :: conversation_manager
  tool_stats :: tool_stats

definition max_retries :: nat where
  "max_retries = 3"

definition retry_delay :: nat where
  "retry_delay = 5"

text \<open>The error detail of a case whose response is empty: \<^verbatim>\<open>API\<close> between two groups
  of Chinese characters, in UTF-8.\<close>

definition NO_VALID_RESPONSE_ZH :: string where
  "NO_VALID_RESPONSE_ZH =
     [CHR 0xE6, CHR 0x9C, CHR 0xAA, CHR 0xE6, CHR 0x94, CHR 0xB6, CHR 0xE5, CHR 0x88, CHR 0xB0,
      CHR 0xE6, CHR 0x9C, CHR 0x89, CHR 0xE6, CHR 0x95, CHR 0x88, CHR 0xE7, CHR 0x9A, CHR 0x84,
      CHR 0x41, CHR 0x50, CHR 0x49, CHR 0xE5, CHR 0x93, CHR 0x8D, CHR 0xE5, CHR 0xBA, CHR 0x94]"

text \<open>
  The retry loop \<^verbatim>\<open>for attempt in range(max_retries)\<close> of \<^verbatim>\<open>process_test_case\<close>, over
  the attempt numbers still to come. \<open>Inl e\<close>: the loop raised \<open>e\<close>. \<open>Inr (Some r)\<close>: it
  was left by \<^verbatim>\<open>break\<close> with the response \<open>r\<close>. \<open>Inr None\<close>: the range was exhausted and
  \<^verbatim>\<open>api_response\<close> is still \<^verbatim>\<open>None\<close>.
\<close>

fun call_with_retry ::
  "'w client \<Rightarrow> request \<Rightarrow> nat list \<Rightarrow> 'w \<Rightarrow>
   (py_exception + ((string \<times> json) list \<times> rat) option) \<times> 'w \<times> effect list" where
  "call_with_retry send req [] w = (Inr None, w, [])"
| "call_with_retry send req (attempt # later) w =
     (case send req w of
        (Inr response, w') \<Rightarrow> (Inr (Some response), w', [ApiCall req])
      | (Inl e, w') \<Rightarrow>
          (if attempt < max_retries - 1 then
             (case call_with_retry send req later w' of
                (r, w'', effs) \<Rightarrow>
                  (r, w'', [ApiCall req, RetryWarning (attempt + 1) e, RetrySleep retry_delay]
                           @ effs))
           else (Inl e, w', [ApiCall req])))"

text \<open>
  The conversation id of the response is stored for the group when it is present and
  not empty (\<^verbatim>\<open>main.py\<close> lines 216 to 222; \<^verbatim>\<open>execution.py\<close> lines 326 to 329 read
  the same).
\<close>

definition update_conversation_id ::
  "(json \<Rightarrow> string) \<Rightarrow> string \<Rightarrow> conversation_manager \<Rightarrow> string \<Rightarrow> (string \<times> json) list \<Rightarrow>
   conversation_manager" where
  "update_conversation_id repr now cm conversation_group_id api_response =
     (case extract_conversation_id repr api_response of
        None \<Rightarrow> cm
      | Some new_conversation_id \<Rightarrow>
          if new_conversation_id \<noteq> []
          then set_conversation_id now cm conversation_group_id new_conversation_id
          else cm)"

text \<open>The result a case starts with: it is a failure until the response says otherwise.\<close>

definition new_result :: "string \<Rightarrow> test_case \<Rightarrow> case_result" where
  "new_result now tc =
     \<lparr>r_conversation_id = tc_conversation_group_id tc,
      r_turn_number = tc_turn_number tc,
      r_user_question = tc_user_question tc,
      r_expected_reply = tc_expected_reply tc,
      r_chatflow_reply = [],
      r_response_time = 0,
      r_api_status = ''failed'',
      r_error_details = [],
      r_call_time = now\<rparr>"

text \<open>The request of a case: the conversation id stored for its group is sent, unless
  none is stored or the stored one is \<^verbatim>\<open>"new"\<close>. The cases the loader reads have no
  key \<^verbatim>\<open>inputs\<close>, so the inputs are the empty dictionary.\<close>

definition cli_request :: "string \<Rightarrow> conversation_manager \<Rightarrow> test_case \<Rightarrow> request" where
  "cli_request user_id cm tc =
     (let conversation_id = get_conversation_id cm (tc_conversation_group_id tc)
      in \<lparr>rq_query = tc_user_question tc,
          rq_user_id = user_id,
          rq_conversation_id =
            (if conversation_id \<noteq> Some ''new'' then conversation_id else None),
          rq_inputs = ''{}''\<rparr>)"

text \<open>
  \<^verbatim>\<open>process_test_case\<close>. \<open>repr\<close> is Python's \<^verbatim>\<open>str\<close> on values that are no strings,
  \<open>user_id\<close> the user id of the configuration and \<open>now\<close> the reading of the clock.
\<close>

definition process_test_case ::
  "(json \<Rightarrow> string) \<Rightarrow> 'w client \<Rightarrow> string \<Rightarrow> string \<Rightarrow> test_case \<Rightarrow> tool \<Rightarrow> 'w \<Rightarrow>
   case_result \<times> tool \<times> 'w \<times> effect list" where
  "process_test_case repr send user_id now tc t w =
     (let result = new_result now tc;
          req = cli_request user_id (tool_cm t) tc;
          processed = (\<lambda>s. s\<lparr>processed_cases := processed_cases s + 1\<rparr>);
          failed = (\<lambda>s. s\<lparr>failed_cases := failed_cases s + 1\<rparr>);
          successful = (\<lambda>s. s\<lparr>successful_cases := successful_cases s + 1\<rparr>)
      in case call_with_retry send req [0..<max_retries] w of
           (Inl e, w', effs) \<Rightarrow>
             (result\<lparr>r_error_details := exc_message e\<rparr>,
              t\<lparr>tool_stats := processed (failed (tool_stats t))\<rparr>, w', effs)
         | (Inr r, w', effs) \<Rightarrow>
             (let api_response = (case r of None \<Rightarrow> [] | Some (d, rt) \<Rightarrow> d);
                  response_time = (case r of None \<Rightarrow> 0 | Some (d, rt) \<Rightarrow> rt);
                  result1 = result\<lparr>r_response_time := py_round response_time 3\<rparr>
              in if api_response \<noteq> [] then
                   (let result2 = result1\<lparr>r_chatflow_reply := extract_answer repr api_response\<rparr>;
                        cm' = update_conversation_id repr now (tool_cm t)
                                (tc_conversation_group_id tc) api_response
                    in (result2\<lparr>r_api_status := STATUS_SUCCESS_ZH\<rparr>,
                        t\<lparr>tool_cm := cm',
                          tool_stats := processed (successful (tool_stats t))\<rparr>, w', effs))
                 else
                   (result1\<lparr>r_error_details := NO_VALID_RESPONSE_ZH\<rparr>,
                    t\<lparr>tool_stats := processed (failed (tool_stats t))\<rparr>, w', effs)))"

text \<open>
  The loop \<^verbatim>\<open>for i, test_case in enumerate(test_cases, 1)\<close> of \<^verbatim>\<open>run\<close>: \<open>i\<close> is the
  number of the case, counted from 1, and \<open>n\<close> is \<^verbatim>\<open>len(test_cases)\<close>. The case is
  processed, its result is written to the result sink, and the engine sleeps two seconds
  when \<^verbatim>\<open>i < len(test_cases) - 1\<close>. \<open>clock i\<close> is the reading of the clock in case \<open>i\<close>.
\<close>

fun run_loop ::
  "(json \<Rightarrow> string) \<Rightarrow> 'w client \<Rightarrow> string \<Rightarrow> (nat \<Rightarrow> string) \<Rightarrow> nat \<Rightarrow> nat \<Rightarrow>
   test_case list \<Rightarrow> tool \<Rightarrow> 'w \<Rightarrow> case_result list \<times> tool \<times> 'w \<times> effect list" where
  "run_loop repr send user_id clock i n [] t w = ([], t, w, [])"
| "run_loop repr send user_id clock i n (tc # later) t w =
     (case process_test_case repr send user_id (clock i) tc t w of
        (result, t', w', effs) \<Rightarrow>
          (case run_loop repr send user_id clock (i + 1) n later t' w' of
             (results, t'', w'', effs') \<Rightarrow>
               (result # results, t'', w'',
                effs @ [AppendResult result]
                     @ (if int i < int n - 1 then [CaseSleep 2] else [])
                     @ effs')))"

text \<open>The part of \<^verbatim>\<open>run\<close> between the loading of the cases and the summary.\<close>

definition new_tool :: tool where
  "new_tool =
     \<lparr>tool_cm = new_conversation_manager,
      tool_stats = \<lparr>total_cases = 0, processed_cases = 0, successful_cases = 0,
                    failed_cases = 0\<rparr>\<rparr>"

definition run ::
  "(json \<Rightarrow> string) \<Rightarrow> 'w client \<Rightarrow> string \<Rightarrow> (nat \<Rightarrow> string) \<Rightarrow> test_case list \<Rightarrow> 'w \<Rightarrow>
   case_result list \<times> tool \<times> 'w \<times> effect list" where
  "run repr send user_id clock test_cases w =
     run_loop repr send user_id clock 1 (length test_cases) test_cases
       (new_tool\<lparr>tool_stats := (tool_stats new_tool)\<lparr>total_cases := length test_cases\<rparr>\<rparr>) w"

text \<open>Clients and cases for the examples. The state of the world is the number of calls
  made so far.\<close>

definition timeout_error :: py_exception where
  "timeout_error = \<lparr>exc_type = ''DifyAPIError'', exc_message = ''timeout''\<rparr>"

definition failing_client :: "nat client" where
  "failing_client req k = (Inl timeout_error, k + 1)"

definition ok_response :: "(string \<times> json) list" where
  "ok_response =
     [(''answer'', JStr ''fine''), (''conversation_id'', JStr ''conv-abc''),
      (''message_id'', JStr ''m-1'')]"



definition ok_client :: "nat client" where
  "ok_client req k = (Inr (ok_response, 1), k + 1)"

definition example_repr :: "json \<Rightarrow> string" where
  "example_repr v = ''?''"

definition example_case :: "nat \<Rightarrow> test_case" where
  "example_case k =
     \<lparr>tc_conversation_group_id = ''g1'', tc_turn_number = int k,
      tc_user_question = ''hello'', tc_expected_reply = []\<rparr>"

definition example_clock :: "nat \<Rightarrow> string" where
  "example_clock i = ''2024-01-01 10:00:00''"

text \<open>The request of the first case of the examples, and the result of a case of the
  examples whose three attempts failed.\<close>

definition example_request :: request where
  "example_request = cli_request ''u'' new_conversation_manager (example_case 1)"

definition example_failed_result :: "nat \<Rightarrow> case_result" where
  "example_failed_result k =
     \<lparr>r_conversation_id = ''g1'', r_turn_number = int k, r_user_question = ''hello'',
      r_expected_reply = [], r_chatflow_reply = [], r_response_time = 0,
      r_api_status = ''failed'', r_error_details = ''timeout'',
      r_call_time = ''2024-01-01 10:00:00''\<rparr>"

text \<open>A client whose responses carry a blank conversation id, and a tool that has stored
  a conversation id for the group of the examples.\<close>

definition no_id_response :: "(string \<times> json) list" where
  "no_id_response = [(''answer'', JStr ''fine''), (''conversation_id'', JStr ''  '')]"

definition no_id_client :: "nat client" where
  "no_id_client req k = (Inr (no_id_response, 1), k + 1)"

definition tool_with_id :: tool where
  "tool_with_id =
     new_tool\<lparr>tool_cm := set_conversation_id ''2024-01-01 09:00:00'' new_conversation_manager
                            ''g1'' ''conv-abc''\<rparr>"

definition is_case_sleep :: "effect \<Rightarrow> bool" where
  "is_case_sleep e = (case e of CaseSleep d \<Rightarrow> True | _ \<Rightarrow> False)"

definition is_api_call :: "effect \<Rightarrow> bool" where
  "is_api_call e = (case e of ApiCall r \<Rightarrow> True | _ \<Rightarrow> False)"


section \<open>The web engine (\<^verbatim>\<open>web/backend/routes/execution.py\<close>)\<close>

subsection \<open>The execution state\<close>

datatype run_status = Idle | Running | Paused | Stopped | Completed | Error

record progress =
  p_total :: nat
  p_completed :: nat
  p_success :: nat
  p_failed :: nat
  p_current :: "string option"

record run_statistics =
  st_total_time :: rat
  st_avg_response_time :: rat
  st_min_response_time :: rat
  st_max_response_time :: rat
  st_success_rate :: rat

text \<open>
  The messages of the log are formatted texts; each constructor stands for one format
  string of the source and carries the values put into it. The id and the time of day
  of an entry come from the environment and are left out.
\<close>

datatype log_message =
    LogBatchStart nat
  | LogUsingConfig string
  | LogPaused
  | LogResumed
  | LogStopped
  | LogEngineReady
  | LogStoppedByUser
  | LogCaseStart nat nat string
  | LogRetry nat nat nat string
  | LogCaseOk nat rat
  | LogCaseNoResponse nat
  | LogCaseFailed nat string
  | LogDone nat nat
  | LogRunError string

record log_entry =
  log_level :: string
  log_message :: log_message

text \<open>The global dictionary \<^verbatim>\<open>execution_state\<close>.\<close>

record execution_state =
  es_status :: run_status
  es_task_id :: "string option"
  es_progress :: progress
  es_start_time :: "string option"
  es_end_time :: "string option"
  es_statistics :: run_statistics
  es_logs :: "log_entry list"
  es_current_response :: string

definition zero_statistics :: run_statistics where
  "zero_statistics =
     \<lparr>st_total_time = 0, st_avg_response_time = 0, st_min_response_time = 0,
      st_max_response_time = 0, st_success_rate = 0\<rparr>"

definition initial_state :: execution_state where
  "initial_state =
     \<lparr>es_status = Idle, es_task_id = None,
      es_progress = \<lparr>p_total = 0, p_completed = 0, p_success = 0, p_failed = 0,
                      p_current = None\<rparr>,
      es_start_time = None, es_end_time = None, es_statistics = zero_statistics,
      es_logs = [], es_current_response = []\<rparr>"

text \<open>\<^verbatim>\<open>add_log\<close>: the entry is appended and the last 100 entries are kept.\<close>

definition add_log :: "string \<Rightarrow> log_message \<Rightarrow> execution_state \<Rightarrow> execution_state" where
  "add_log level msg st =
     (let entries = es_logs st @ [\<lparr>log_level = level, log_message = msg\<rparr>]
      in st\<lparr>es_logs := (if 100 < length entries
                          then drop (length entries - 100) entries else entries)\<rparr>)"

subsection \<open>The control operations\<close>

text \<open>An \<^verbatim>\<open>HTTPException\<close> carries the status code and the reason; an accepted request
  returns an \<^verbatim>\<open>ApiResponse\<close>.\<close>

datatype http_detail =
    AlreadyRunning
  | NoTestCases
  | NoActiveConfig
  | NotRunning
  | NotPaused
  | NotExecuting

datatype http_exception = HTTPException nat http_detail

datatype api_response = TestStarted string | TestPaused | TestResumed | TestStopped

definition pause_test :: "execution_state \<Rightarrow> (http_exception + api_response) \<times> execution_state" where
  "pause_test st =
     (if es_status st \<noteq> Running then (Inl (HTTPException 400 NotRunning), st)
      else (Inr TestPaused, add_log ''warning'' LogPaused (st\<lparr>es_status := Paused\<rparr>)))"

definition resume_test :: "execution_state \<Rightarrow> (http_exception + api_response) \<times> execution_state" where
  "resume_test st =
     (if es_status st \<noteq> Paused then (Inl (HTTPException 400 NotPaused), st)
      else (Inr TestResumed, add_log ''info'' LogResumed (st\<lparr>es_status := Running\<rparr>)))"

definition stop_test ::
  "string \<Rightarrow> execution_state \<Rightarrow> (http_exception + api_response) \<times> execution_state" where
  "stop_test now st =
     (if es_status st \<notin> set [Running, Paused] then (Inl (HTTPException 400 NotExecuting), st)
      else (Inr TestStopped,
            add_log ''error'' LogStopped (st\<lparr>es_status := Stopped, es_end_time := Some now\<rparr>)))"

definition get_test_status :: "execution_state \<Rightarrow> execution_state" where
  "get_test_status st = st"

record web_test_case =
  wc_id :: "string option"
  wc_conversation_id :: string
  wc_round :: int
  wc_user_question :: string
  wc_expected_response :: string
  wc_inputs :: string

record config =
  cfg_name :: string
  cfg_is_active :: bool
  cfg_user_id :: string

text \<open>
  What \<^verbatim>\<open>start_test\<close> takes from its environment: the stored test cases, the stored
  configurations, the fresh \<^verbatim>\<open>uuid4\<close> and the reading of the clock.
\<close>

record start_env =
  se_test_cases :: "web_test_case list"
  se_configs :: "config list"
  se_task_id :: string
  se_now :: string

text \<open>
  \<^verbatim>\<open>start_test\<close> on the execution state. Beside the response and the new state it
  returns the arguments of the background task it adds, when it adds one.
\<close>

definition start_test ::
  "start_env \<Rightarrow> execution_state \<Rightarrow>
   (http_exception + api_response) \<times> execution_state \<times> (web_test_case list \<times> config) option" where
  "start_test env st =
     (if es_status st = Running then (Inl (HTTPException 400 AlreadyRunning), st, None)
      else if se_test_cases env = [] then (Inl (HTTPException 400 NoTestCases), st, None)
      else
        (case find cfg_is_active (se_configs env) of
           None \<Rightarrow> (Inl (HTTPException 400 NoActiveConfig), st, None)
         | Some active_config \<Rightarrow>
             (let st1 = \<lparr>es_status = Running,
                         es_task_id = Some (se_task_id env),
                         es_progress = \<lparr>p_total = length (se_test_cases env),
                                         p_completed = 0, p_success = 0, p_failed = 0,
                                         p_current = None\<rparr>,
                         es_start_time = Some (se_now env),
                         es_end_time = None,
                         es_statistics = zero_statistics,
                         es_logs = [],
                         es_current_response = []\<rparr>;
                  st2 = add_log ''info'' (LogBatchStart (length (se_test_cases env))) st1;
                  st3 = add_log ''info'' (LogUsingConfig (cfg_name active_config)) st2
              in (Inr (TestStarted (se_task_id env)), st3,
                  Some (se_test_cases env, active_config)))))"

subsection \<open>The background task\<close>

record web_result =
  wr_task_id :: "string option"
  wr_case_id :: string
  wr_conversation_id :: string
  wr_turn_number :: int
  wr_user_question :: string
  wr_expected_response :: string
  wr_chatflow_reply :: string
  wr_response_time :: rat
  wr_api_status :: string
  wr_error_details :: string
  wr_call_time :: string

text \<open>
  \<^verbatim>\<open>execute_test_cases\<close> is a coroutine on the event loop of the server. The request
  handlers are coroutines on the same loop and none of them awaits, and
  \<^verbatim>\<open>send_chat_message\<close> is an ordinary blocking call. So the task gives way to the
  handlers (and to other tasks) at its three \<^verbatim>\<open>await asyncio.sleep\<close> only: in the pause
  loop, between two attempts and between two cases. What it does between two of them is
  one step. The program counter says where the task is suspended:
  \<^item> \<open>AtStart\<close>: added by \<^verbatim>\<open>start_test\<close>, not yet run;
  \<^item> \<open>AtLoop i\<close>: in the pause loop or in the delay before iteration \<open>i\<close> (counted from
    0) of the loop over the cases, about to test the status;
  \<^item> \<open>AtRetry i a result cid\<close>: in case \<open>i\<close>, in the delay before attempt \<open>a\<close>, with the
    local variables \<^verbatim>\<open>result\<close> and \<^verbatim>\<open>conversation_id\<close> of the case;
  \<^item> \<open>Finished\<close>: returned.
\<close>

datatype pc =
    AtStart
  | AtLoop nat
  | AtRetry nat nat web_result "string option"
  | Finished

text \<open>The arguments and the local variables of one task. \<open>t_init_error\<close> is the
  exception, if any, that the set-up of the engine before the loop raises (the legacy
  modules are missing, the key cannot be decrypted, the client cannot be built).\<close>

record task =
  t_cases :: "web_test_case list"
  t_config :: config
  t_init_error :: "string option"
  t_pc :: pc
  t_task_id :: "string option"
  t_results :: "web_result list"
  t_response_times :: "rat list"
  t_cm :: conversation_manager

text \<open>What one step of one task reads and writes: the shared execution state, the task
  itself, the world behind the client, and the effects so far.\<close>

record 'w ctx =
  c_state :: execution_state
  c_task :: task
  c_world :: 'w
  c_effects :: "effect list"

datatype flow = Suspend | Continue

definition web_max_retries :: nat where
  "web_max_retries = 3"

definition web_retry_delay :: nat where
  "web_retry_delay = 2"

text \<open>The error detail of a case without a usable response: the text
  \<open>NO_VALID_RESPONSE_ZH\<close> followed by six more Chinese characters, in UTF-8.\<close>

definition NO_RESPONSE_OR_STOPPED_ZH :: string where
  "NO_RESPONSE_OR_STOPPED_ZH =
     NO_VALID_RESPONSE_ZH @
     [CHR 0xE6, CHR 0x88, CHR 0x96, CHR 0xE6, CHR 0xB5, CHR 0x8B, CHR 0xE8, CHR 0xAF, CHR 0x95,
      CHR 0xE8, CHR 0xA2, CHR 0xAB, CHR 0xE5, CHR 0x81, CHR 0x9C, CHR 0xE6, CHR 0xAD, CHR 0xA2]"

fun str_of_nat :: "nat \<Rightarrow> string" where
  "str_of_nat n =
     (if n < 10 then [char_of (48 + n)]
      else str_of_nat (n div 10) @ [char_of (48 + n mod 10)])"

definition set_progress :: "(progress \<Rightarrow> progress) \<Rightarrow> execution_state \<Rightarrow> execution_state" where
  "set_progress f st = st\<lparr>es_progress := f (es_progress st)\<rparr>"

text \<open>Lines 365 to 388: after the loop. The run is completed when the status is still
  \<^verbatim>\<open>running\<close>. (The write of the record to the history is left out.)\<close>

definition post_loop :: "string \<Rightarrow> 'w ctx \<Rightarrow> 'w ctx" where
  "post_loop now c =
     (let st = c_state c;
          st' = (if es_status st = Running
                 then add_log ''success''
                        (LogDone (p_success (es_progress st)) (p_failed (es_progress st)))
                        (st\<lparr>es_status := Completed, es_end_time := Some now\<rparr>)
                 else st)
      in c\<lparr>c_state := st', c_task := (c_task c)\<lparr>t_pc := Finished\<rparr>\<rparr>)"

text \<open>Lines 390 to 406: an exception outside the handling of one case.\<close>

definition run_error :: "string \<Rightarrow> string \<Rightarrow> 'w ctx \<Rightarrow> 'w ctx" where
  "run_error now msg c =
     c\<lparr>c_state := add_log ''error'' (LogRunError msg)
                     ((c_state c)\<lparr>es_status := Error, es_end_time := Some now\<rparr>),
       c_task := (c_task c)\<lparr>t_pc := Finished\<rparr>\<rparr>"

fun list_min :: "rat list \<Rightarrow> rat" where
  "list_min [] = 0"
| "list_min [x] = x"
| "list_min (x # y # ys) = min x (list_min (y # ys))"

fun list_max :: "rat list \<Rightarrow> rat" where
  "list_max [] = 0"
| "list_max [x] = x"
| "list_max (x # y # ys) = max x (list_max (y # ys))"

text \<open>
  Lines 345 to 363: the end of case \<open>i\<close>. The result is kept, \<^verbatim>\<open>completed\<close> is counted
  up, the statistics are renewed, and the task sleeps two seconds when
  \<^verbatim>\<open>i < len(test_cases) - 1\<close> and the status is not \<^verbatim>\<open>stopped\<close>; otherwise the loop goes
  on to its next iteration at once.
\<close>

definition finish_case :: "nat \<Rightarrow> web_result \<Rightarrow> 'w ctx \<Rightarrow> flow \<times> 'w ctx" where
  "finish_case i result c =
     (let tk = (c_task c)\<lparr>t_results := t_results (c_task c) @ [result]\<rparr>;
          st1 = set_progress (\<lambda>p. p\<lparr>p_completed := p_completed p + 1\<rparr>) (c_state c);
          times = t_response_times tk;
          st2 = (if times \<noteq> [] then
                   st1\<lparr>es_statistics := (es_statistics st1)
                         \<lparr>st_avg_response_time := sum_list times / of_nat (length times),
                          st_min_response_time := list_min times,
                          st_max_response_time := list_max times,
                          st_success_rate :=
                            of_nat (p_success (es_progress st1))
                              / of_nat (p_completed (es_progress st1)) * 100\<rparr>\<rparr>
                 else st1)
      in if int i < int (length (t_cases tk)) - 1 \<and> es_status st2 \<noteq> Stopped
         then (Suspend, c\<lparr>c_state := st2, c_task := tk\<lparr>t_pc := AtLoop (i + 1)\<rparr>,
                          c_effects := c_effects c @ [CaseSleep 2]\<rparr>)
         else (Continue, c\<lparr>c_state := st2, c_task := tk\<rparr>))"

text \<open>
  Lines 320 to 333: the case has a response and the run is not stopped. The answer and
  the conversation id are taken from the response and the case counts as a success.
\<close>

definition record_success ::
  "(json \<Rightarrow> string) \<Rightarrow> string \<Rightarrow> nat \<Rightarrow> web_result \<Rightarrow> (string \<times> json) list \<Rightarrow> rat \<Rightarrow>
   'w ctx \<Rightarrow> flow \<times> 'w ctx" where
  "record_success repr now i result api_response elapsed c =
     (let chatflow_reply = extract_answer repr api_response;
          result1 = result\<lparr>wr_chatflow_reply := chatflow_reply\<rparr>;
          st1 = (c_state c)\<lparr>es_current_response :=
                   (if 200 < py_len chatflow_reply
                    then py_take 200 chatflow_reply @ ''...'' else chatflow_reply)\<rparr>;
          cm' = update_conversation_id repr now (t_cm (c_task c)) (wr_conversation_id result)
                  api_response;
          result2 = result1\<lparr>wr_api_status := ''success''\<rparr>;
          st2 = set_progress (\<lambda>p. p\<lparr>p_success := p_success p + 1\<rparr>) st1;
          st3 = add_log ''success'' (LogCaseOk (i + 1) elapsed) st2
      in finish_case i result2 (c\<lparr>c_state := st3, c_task := (c_task c)\<lparr>t_cm := cm'\<rparr>\<rparr>))"

text \<open>Lines 335 to 338: no response, or the run was stopped. The case counts as a
  failure.\<close>

definition record_no_response :: "nat \<Rightarrow> web_result \<Rightarrow> 'w ctx \<Rightarrow> flow \<times> 'w ctx" where
  "record_no_response i result c =
     (let result1 = result\<lparr>wr_error_details := NO_RESPONSE_OR_STOPPED_ZH\<rparr>;
          st1 = set_progress (\<lambda>p. p\<lparr>p_failed := p_failed p + 1\<rparr>) (c_state c);
          st2 = add_log ''error'' (LogCaseNoResponse (i + 1)) st1
      in finish_case i result1 (c\<lparr>c_state := st2\<rparr>))"

text \<open>
  Lines 316 to 338: after the retry loop was left without an exception. \<open>r\<close> is the
  response and its time when an attempt returned one, and \<open>None\<close> when the loop was left
  because the run was stopped.
\<close>

definition after_retry ::
  "(json \<Rightarrow> string) \<Rightarrow> string \<Rightarrow> nat \<Rightarrow> web_result \<Rightarrow> ((string \<times> json) list \<times> rat) option \<Rightarrow>
   'w ctx \<Rightarrow> flow \<times> 'w ctx" where
  "after_retry repr now i result r c =
     (let api_response = (case r of None \<Rightarrow> [] | Some (d, rt) \<Rightarrow> d);
          response_time = (case r of None \<Rightarrow> 0 | Some (d, rt) \<Rightarrow> rt);
          result1 = result\<lparr>wr_response_time := py_round response_time 3\<rparr>;
          c1 = c\<lparr>c_task := (c_task c)
                 \<lparr>t_response_times := t_response_times (c_task c) @ [response_time]\<rparr>\<rparr>
      in if api_response \<noteq> [] \<and> es_status (c_state c) \<noteq> Stopped
         then record_success repr now i result1 api_response response_time c1
         else record_no_response i result1 c1)"

text \<open>Lines 340 to 343: the exception of the last attempt, caught for the case.\<close>

definition case_exception :: "nat \<Rightarrow> web_result \<Rightarrow> py_exception \<Rightarrow> 'w ctx \<Rightarrow> flow \<times> 'w ctx" where
  "case_exception i result e c =
     (let result1 = result\<lparr>wr_error_details := exc_message e\<rparr>;
          st1 = set_progress (\<lambda>p. p\<lparr>p_failed := p_failed p + 1\<rparr>) (c_state c);
          st2 = add_log ''error'' (LogCaseFailed (i + 1) (exc_message e)) st1
      in finish_case i result1 (c\<lparr>c_state := st2\<rparr>))"

text \<open>
  The arguments of the call of the client in case \<open>i\<close> (lines 299 to 304). The inputs of
  the case are decoded by \<^verbatim>\<open>json.loads\<close> inside the same \<^verbatim>\<open>try\<close> as the call, so an
  exception of the decoding is an exception of the attempt: the client of the model
  stands for the decoding and the call together.
\<close>

definition web_request :: "task \<Rightarrow> nat \<Rightarrow> web_result \<Rightarrow> string option \<Rightarrow> request" where
  "web_request tk i result conv_id =
     (let tc = t_cases tk ! i
      in \<lparr>rq_query = wr_user_question result,
          rq_user_id = cfg_user_id (t_config tk),
          rq_conversation_id = (if conv_id \<noteq> Some ''new'' then conv_id else None),
          rq_inputs = (if wc_inputs tc \<noteq> [] then wc_inputs tc else ''{}'')\<rparr>)"

text \<open>
  Lines 293 to 314: attempt \<open>a\<close> of the retry loop of case \<open>i\<close>, up to the next
  \<^verbatim>\<open>await\<close>. An attempt that raises is followed by a warning and a sleep when it is not
  the last one; the exception of the last one is raised again.
\<close>

definition attempt ::
  "(json \<Rightarrow> string) \<Rightarrow> 'w client \<Rightarrow> string \<Rightarrow> nat \<Rightarrow> nat \<Rightarrow> web_result \<Rightarrow> string option \<Rightarrow>
   'w ctx \<Rightarrow> flow \<times> 'w ctx" where
  "attempt repr send now i a result conv_id c =
     (if web_max_retries \<le> a then after_retry repr now i result None c
      else if es_status (c_state c) = Stopped then after_retry repr now i result None c
      else
        (let req = web_request (c_task c) i result conv_id;
             c1 = c\<lparr>c_effects := c_effects c @ [ApiCall req]\<rparr>
         in case send req (c_world c) of
              (Inr response, w') \<Rightarrow> after_retry repr now i result (Some response) (c1\<lparr>c_world := w'\<rparr>)
            | (Inl e, w') \<Rightarrow>
                if a < web_max_retries - 1 then
                  (Suspend,
                   c1\<lparr>c_world := w',
                      c_state := add_log ''warning''
                                   (LogRetry web_retry_delay (a + 1) web_max_retries (exc_message e))
                                   (c_state c),
                      c_task := (c_task c)\<lparr>t_pc := AtRetry i (a + 1) result conv_id\<rparr>,
                      c_effects := c_effects c1 @ [RetrySleep web_retry_delay]\<rparr>)
                else case_exception i result e (c1\<lparr>c_world := w'\<rparr>)))"

text \<open>Lines 255 and 265 to 277: the identifier of case \<open>i\<close> and the result it starts with.\<close>

definition case_id_of :: "web_test_case \<Rightarrow> nat \<Rightarrow> string" where
  "case_id_of tc i = (case wc_id tc of Some x \<Rightarrow> x | None \<Rightarrow> ''test_case_'' @ str_of_nat (i + 1))"

definition new_web_result :: "string \<Rightarrow> task \<Rightarrow> nat \<Rightarrow> web_result" where
  "new_web_result now tk i =
     (let tc = t_cases tk ! i
      in \<lparr>wr_task_id = t_task_id tk,
          wr_case_id = case_id_of tc i,
          wr_conversation_id = wc_conversation_id tc,
          wr_turn_number = wc_round tc,
          wr_user_question = wc_user_question tc,
          wr_expected_response = wc_expected_response tc,
          wr_chatflow_reply = [],
          wr_response_time = 0,
          wr_api_status = ''failed'',
          wr_error_details = [],
          wr_call_time = now\<rparr>)"

text \<open>Lines 254 to 291: the start of case \<open>i\<close>, then its first attempt.\<close>

definition begin_case ::
  "(json \<Rightarrow> string) \<Rightarrow> 'w client \<Rightarrow> string \<Rightarrow> nat \<Rightarrow> 'w ctx \<Rightarrow> flow \<times> 'w ctx" where
  "begin_case repr send now i c =
     (let tk = c_task c;
          tc = t_cases tk ! i;
          st1 = (set_progress (\<lambda>p. p\<lparr>p_current := Some (case_id_of tc i)\<rparr>) (c_state c))
                  \<lparr>es_current_response := []\<rparr>;
          st2 = add_log ''info''
                  (LogCaseStart (i + 1) (length (t_cases tk)) (py_take 50 (wc_user_question tc))) st1;
          result = new_web_result now tk i;
          conv_id = get_conversation_id (t_cm tk) (wc_conversation_id tc)
      in attempt repr send now i 0 result conv_id (c\<lparr>c_state := st2\<rparr>))"

text \<open>
  Lines 245 to 252 and the loop itself, from the top of iteration \<open>i\<close> to the next
  \<^verbatim>\<open>await\<close> or to the return of the task: the pause loop, the test for \<^verbatim>\<open>stopped\<close>,
  the case, and on to the next iteration when the case ended without a sleep.
\<close>

function loop_from ::
  "(json \<Rightarrow> string) \<Rightarrow> 'w client \<Rightarrow> string \<Rightarrow> nat \<Rightarrow> nat \<Rightarrow> 'w ctx \<Rightarrow> 'w ctx" where
  "loop_from repr send now n i c =
     (if n \<le> i then post_loop now c
      else if es_status (c_state c) = Paused then
        c\<lparr>c_task := (c_task c)\<lparr>t_pc := AtLoop i\<rparr>, c_effects := c_effects c @ [PauseSleep 1]\<rparr>
      else if es_status (c_state c) = Stopped then
        post_loop now (c\<lparr>c_state := add_log ''warning'' LogStoppedByUser (c_state c)\<rparr>)
      else
        (case begin_case repr send now i c of
           (Suspend, c') \<Rightarrow> c'
         | (Continue, c') \<Rightarrow> loop_from repr send now n (i + 1) c'))"
  by pat_completeness auto
termination
  by (relation "measure (\<lambda>(repr, send, now, n, i, c). n - i)") auto

text \<open>One step of a task: from where it is suspended to its next \<^verbatim>\<open>await\<close> or to its
  return. \<open>n\<close> is \<^verbatim>\<open>len(test_cases)\<close>.\<close>

definition task_step :: "(json \<Rightarrow> string) \<Rightarrow> 'w client \<Rightarrow> string \<Rightarrow> 'w ctx \<Rightarrow> 'w ctx" where
  "task_step repr send now c =
     (let n = length (t_cases (c_task c)) in
      case t_pc (c_task c) of
        AtStart \<Rightarrow>
          (let c1 = c\<lparr>c_task := (c_task c)\<lparr>t_task_id := es_task_id (c_state c)\<rparr>\<rparr> in
           case t_init_error (c_task c) of
             Some msg \<Rightarrow> run_error now msg c1
           | None \<Rightarrow>
               loop_from repr send now n 0
                 (c1\<lparr>c_state := add_log ''info'' LogEngineReady (c_state c1)\<rparr>))
      | AtLoop i \<Rightarrow> loop_from repr send now n i c
      | AtRetry i a result conv_id \<Rightarrow>
          (case attempt repr send now i a result conv_id c of
             (Suspend, c') \<Rightarrow> c'
           | (Continue, c') \<Rightarrow> loop_from repr send now n (i + 1) c')
      | Finished \<Rightarrow> c)"

subsection \<open>The server: requests and task steps in any order\<close>

record 'w system =
  sys_state :: execution_state
  sys_tasks :: "task list"
  sys_world :: 'w
  sys_effects :: "effect list"

definition initial_system :: "'w \<Rightarrow> 'w system" where
  "initial_system w =
     \<lparr>sys_state = initial_state, sys_tasks = [], sys_world = w, sys_effects = []\<rparr>"

text \<open>
  What the event loop runs next: a request to one of the four control routes, or one
  step of the task number \<open>k\<close> (in the order in which the tasks were added). \<open>Start\<close>
  carries the environment of \<^verbatim>\<open>start_test\<close> and the exception, if any, that the set-up
  of the new task will raise; \<open>Stop\<close> and \<open>Step\<close> carry the reading of the clock.
\<close>

datatype action =
    Start start_env "string option"
  | Pause
  | Resume
  | Stop string
  | Step nat string

definition new_task :: "web_test_case list \<Rightarrow> config \<Rightarrow> string option \<Rightarrow> task" where
  "new_task test_cases active_config init_error =
     \<lparr>t_cases = test_cases, t_config = active_config, t_init_error = init_error,
      t_pc = AtStart, t_task_id = None, t_results = [], t_response_times = [],
      t_cm = new_conversation_manager\<rparr>"

definition apply_action ::
  "(json \<Rightarrow> string) \<Rightarrow> 'w client \<Rightarrow> action \<Rightarrow> 'w system \<Rightarrow> 'w system" where
  "apply_action repr send act s =
     (case act of
        Start env init_error \<Rightarrow>
          (case start_test env (sys_state s) of
             (response, st, None) \<Rightarrow> s\<lparr>sys_state := st\<rparr>
           | (response, st, Some (test_cases, active_config)) \<Rightarrow>
               s\<lparr>sys_state := st,
                 sys_tasks := sys_tasks s @ [new_task test_cases active_config init_error]\<rparr>)
      | Pause \<Rightarrow> s\<lparr>sys_state := snd (pause_test (sys_state s))\<rparr>
      | Resume \<Rightarrow> s\<lparr>sys_state := snd (resume_test (sys_state s))\<rparr>
      | Stop now \<Rightarrow> s\<lparr>sys_state := snd (stop_test now (sys_state s))\<rparr>
      | Step k now \<Rightarrow>
          (if k < length (sys_tasks s) then
             (let c = task_step repr send now
                        \<lparr>c_state = sys_state s, c_task = sys_tasks s ! k,
                         c_world = sys_world s, c_effects = sys_effects s\<rparr>
              in \<lparr>sys_state = c_state c, sys_tasks = (sys_tasks s)[k := c_task c],
                  sys_world = c_world c, sys_effects = c_effects c\<rparr>)
           else s))"

fun exec :: "(json \<Rightarrow> string) \<Rightarrow> 'w client \<Rightarrow> action list \<Rightarrow> 'w system \<Rightarrow> 'w system" where
  "exec repr send [] s = s"
| "exec repr send (act # acts) s = exec repr send acts (apply_action repr send act s)"



text \<open>Two stored cases and one active configuration, for the examples.\<close>

definition example_web_case :: "nat \<Rightarrow> web_test_case" where
  "example_web_case k =
     \<lparr>wc_id = None, wc_conversation_id = ''g1'', wc_round = int k,
      wc_user_question = ''hello'', wc_expected_response = [], wc_inputs = []\<rparr>"

definition example_config :: config where
  "example_config = \<lparr>cfg_name = ''default'', cfg_is_active = True, cfg_user_id = ''u''\<rparr>"

definition example_env :: "string \<Rightarrow> start_env" where
  "example_env tid =
     \<lparr>se_test_cases = [example_web_case 1, example_web_case 2],
      se_configs = [example_config], se_task_id = tid, se_now = ''2024-01-01T10:00:00''\<rparr>"




text \<open>The execution state of the examples, in a given status.\<close>

definition state_in :: "run_status \<Rightarrow> execution_state" where
  "state_in status = initial_state\<lparr>es_status := status\<rparr>"

text \<open>A task at the top of its first iteration, with the cases of the examples, and the
  context of its next step in a running state.\<close>

definition example_task :: task where
  "example_task =
     (new_task (se_test_cases (example_env ''run-1'')) example_config None)
       \<lparr>t_pc := AtLoop 0, t_task_id := Some ''run-1''\<rparr>"

definition example_ctx :: "nat ctx" where
  "example_ctx =
     \<lparr>c_state = fst (snd (start_test (example_env ''run-1'') initial_state)),
      c_task = example_task, c_world = 0, c_effects = []\<rparr>"




text \<open>The server after the first case of a run of two cases: the task has stored the
  conversation id of the first response.\<close>

definition system_with_id :: "nat system" where
  "system_with_id =
     exec example_repr ok_client [Start (example_env ''run-1'') None, Step 0 ''t1'']
       (initial_system 0)"


section \<open>Invariants\<close>

subsection \<open>The progress counters\<close>






subsection \<open>The stored conversation ids\<close>

text \<open>Every group that has a conversation id which is not empty in \<open>cm\<close> has one in
  \<open>cm'\<close>.\<close>

definition keeps_ids :: "conversation_manager \<Rightarrow> conversation_manager \<Rightarrow> bool" where
  "keeps_ids cm cm' =
     (\<forall>g x. get_conversation_id cm g = Some x \<and> x \<noteq> [] \<longrightarrow>
        (\<exists>y. get_conversation_id cm' g = Some y \<and> y \<noteq> []))"

text \<open>No stored conversation id is empty.\<close>

definition ids_not_empty :: "conversation_manager \<Rightarrow> bool" where
  "ids_not_empty cm = (\<forall>g. get_conversation_id cm g \<noteq> Some [])"


text \<open>Both at once, from one store to a later one.\<close>

definition ids_safe :: "conversation_manager \<Rightarrow> conversation_manager \<Rightarrow> bool" where
  "ids_safe cm cm' = (keeps_ids cm cm' \<and> (ids_not_empty cm \<longrightarrow> ids_not_empty cm'))"


section \<open>Properties of the Conversation State Store\<close>

lemma count_turns_fst:
  "fst (count_turns turns (s, f)) =
     s + length (filter (\<lambda>t. api_status t = STATUS_SUCCESS_ZH) turns)"
  by (induction turns arbitrary: s f) auto

lemma count_turns_snd:
  "snd (count_turns turns (s, f)) =
     f + length (filter (\<lambda>t. api_status t \<noteq> STATUS_SUCCESS_ZH) turns)"
  by (induction turns arbitrary: s f) auto

lemma count_groups_fst:
  "fst (count_groups d acc) =
     fst acc + sum_list (map (\<lambda>(g, turns).
                 length (filter (\<lambda>t. api_status t = STATUS_SUCCESS_ZH) turns)) d)"
proof (induction d arbitrary: acc)
  case Nil
  then show ?case by simp
next
  case (Cons entry d)
  obtain g turns where entry: "entry = (g, turns)" by (cases entry)
  obtain s f where acc: "acc = (s, f)" by (cases acc)
  show ?case
    using Cons.IH [of "count_turns turns (s, f)"]
    by (simp add: entry acc count_turns_fst)
qed

lemma count_groups_snd:
  "snd (count_groups d acc) =
     snd acc + sum_list (map (\<lambda>(g, turns).
                 length (filter (\<lambda>t. api_status t \<noteq> STATUS_SUCCESS_ZH) turns)) d)"
proof (induction d arbitrary: acc)
  case Nil
  then show ?case by simp
next
  case (Cons entry d)
  obtain g turns where entry: "entry = (g, turns)" by (cases entry)
  obtain s f where acc: "acc = (s, f)" by (cases acc)
  show ?case
    using Cons.IH [of "count_turns turns (s, f)"]
    by (simp add: entry acc count_turns_snd)
qed

lemma count_groups_total:
  "fst (count_groups d (s, f)) + snd (count_groups d (s, f)) =
     s + f + sum_list (map (\<lambda>(g, turns). length turns) d)"
proof (induction d arbitrary: s f)
  case Nil
  then show ?case by simp
next
  case (Cons entry d)
  obtain g turns where entry: "entry = (g, turns)" by (cases entry)
  obtain s' f' where step: "count_turns turns (s, f) = (s', f')"
    by (cases "count_turns turns (s, f)")
  have "s' + f' = s + f + length turns"
    using count_turns_fst [of turns s f] count_turns_snd [of turns s f]
          sum_length_filter_compl [of "\<lambda>t. api_status t = STATUS_SUCCESS_ZH" turns]
    by (simp add: step)
  then show ?case
    using Cons.IH [of s' f'] by (simp add: entry step)
qed

lemma round_half_even_0: "round_half_even 0 = 0"
  by (simp add: round_half_even_def)

lemma py_round_0: "py_round 0 n = 0"
  by (simp add: py_round_def round_decimal_def to_double_def round_half_even_0)

text \<open>
  C10. The counts of \<^verbatim>\<open>get_statistics\<close> add up: \<open>successful_turns + failed_turns =
  total_turns\<close>, although the total is the sum of the lengths of the histories and the
  other two come from the counting loops. A turn counts as successful exactly when its
  \<open>api_status\<close> is the text \<open>STATUS_SUCCESS_ZH\<close>, every other turn counts as failed. The
  success rate is \<open>successful_turns / total_turns * 100\<close> rounded to two decimals when
  there is a turn, and 0 otherwise (the quotient is exact here; Python takes it in
  binary floating point).
\<close>

theorem get_statistics_counts:
  "successful_turns (get_statistics cm) + failed_turns (get_statistics cm)
     = total_turns (get_statistics cm)
   \<and> successful_turns (get_statistics cm)
     = sum_list (map (\<lambda>(g, turns).
         length (filter (\<lambda>t. api_status t = STATUS_SUCCESS_ZH) turns)) (conversation_turns cm))
   \<and> success_rate (get_statistics cm)
     = (if 0 < total_turns (get_statistics cm)
        then py_round (to_double (to_double (of_nat (successful_turns (get_statistics cm))
                        / of_nat (total_turns (get_statistics cm))) * 100)) 2
        else 0)"
proof -
  obtain s f where c: "count_groups (conversation_turns cm) (0, 0) = (s, f)"
    by (cases "count_groups (conversation_turns cm) (0, 0)")
  have sum: "s + f = sum_list (map (\<lambda>(g, turns). length turns) (conversation_turns cm))"
    using count_groups_total [of "conversation_turns cm" 0 0] by (simp add: c)
  have s: "s = sum_list (map (\<lambda>(g, turns).
         length (filter (\<lambda>t. api_status t = STATUS_SUCCESS_ZH) turns)) (conversation_turns cm))"
    using count_groups_fst [of "conversation_turns cm" "(0, 0)"] by (simp add: c)
  have total: "total_turns (get_statistics cm) = s + f"
    by (simp add: get_statistics_def c Let_def sum)
  have succ: "successful_turns (get_statistics cm) = s"
    by (simp add: get_statistics_def c Let_def)
  have fail: "failed_turns (get_statistics cm) = f"
    by (simp add: get_statistics_def c Let_def)
  have rate: "success_rate (get_statistics cm) =
      (if 0 < s + f
       then py_round (to_double (to_double (of_nat s / of_nat (s + f)) * 100)) 2 else 0)"
    by (simp add: get_statistics_def c Let_def sum [symmetric] py_round_0)
  show ?thesis
    unfolding total succ fail rate using s by simp
qed

text \<open>A store with two turns, one successful and one failed: the rate is 50.\<close>

theorem get_statistics_counts_witness:
  "successful_turns (get_statistics example_store) = 1
   \<and> failed_turns (get_statistics example_store) = 1
   \<and> total_turns (get_statistics example_store) = 2
   \<and> success_rate (get_statistics example_store) = 50"
proof -
  have t: "total_turns (get_statistics example_store) = 2"
    by code_simp
  have s: "successful_turns (get_statistics example_store) = 1"
    by code_simp
  have r: "py_round (to_double (to_double (1 / 2) * 100)) 2 = 50"
    by code_simp
  show ?thesis
    using get_statistics_counts [of example_store] by (simp add: t s r)
qed


lemma dict_get_set_other: "k' \<noteq> k \<Longrightarrow> dict_get (dict_set k v d) k' dflt = dict_get d k' dflt"
  by (simp add: dict_get_def dict_set_def update_conv')






section \<open>Properties of the streaming client\<close>

lemma first_provided_step:
  "first_provided ((if \<not> truthy c then v else c) # vs) = first_provided (c # v # vs)"
  by (auto simp add: first_provided_def split: list.splits)

lemma first_provided_end:
  "(if \<not> truthy c then v else c) = first_provided [c, v]"
  by (simp add: first_provided_def)

lemma first_provided_Null: "first_provided (JNull # vs) = first_provided vs"
  by (auto simp add: first_provided_def split: list.splits)

text \<open>One line of the stream, by the kind of the event it decodes to.\<close>

lemma stream_lines_skip:
  "line_event loads line = None \<Longrightarrow>
   stream_lines loads (line # rest) vars = stream_lines loads rest vars"
  by (auto simp add: line_event_def Let_def split: if_splits)

lemma stream_lines_end:
  "line_event loads line = Some ev \<Longrightarrow> is_event ''message_end'' ev \<Longrightarrow>
   stream_lines loads (line # rest) vars =
     Inr \<lparr>full_answer = full_answer vars,
          conversation_id =
            first_provided [conversation_id vars, event_field ev ''conversation_id'' JNull],
          message_id = first_provided [message_id vars, event_field ev ''id'' JNull]\<rparr>"
  by (cases ev)
     (auto simp add: line_event_def Let_def is_event_def event_field_def
             first_provided_end [symmetric]
           split: if_splits)

lemma stream_lines_message:
  "line_event loads line = Some ev \<Longrightarrow> plain_event ev \<Longrightarrow> is_event ''message'' ev \<Longrightarrow>
   stream_lines loads (line # rest) vars =
     stream_lines loads rest
       \<lparr>full_answer = full_answer vars @ text_of (event_field ev ''answer'' (JStr [])),
        conversation_id =
          (if \<not> truthy (conversation_id vars)
           then event_field ev ''conversation_id'' JNull else conversation_id vars),
        message_id =
          (if \<not> truthy (message_id vars)
           then event_field ev ''message_id'' JNull else message_id vars)\<rparr>"
  by (cases ev)
     (auto simp add: line_event_def Let_def is_event_def event_field_def plain_event_def
             text_of_def
           split: if_splits json.splits)

lemma stream_lines_other:
  "line_event loads line = Some ev \<Longrightarrow> plain_event ev \<Longrightarrow> \<not> is_event ''message'' ev \<Longrightarrow>
   \<not> is_event ''message_end'' ev \<Longrightarrow>
   stream_lines loads (line # rest) vars = stream_lines loads rest vars"
  by (cases ev)
     (auto simp add: line_event_def Let_def is_event_def event_field_def plain_event_def
           split: if_splits json.splits)

declare stream_lines.simps(2) [simp del]

lemma decoded_events_Cons:
  "decoded_events loads (line # rest) =
     (case line_event loads line of
        None \<Rightarrow> decoded_events loads rest
      | Some ev \<Rightarrow> ev # decoded_events loads rest)"
  by (simp add: decoded_events_def List.map_filter_simps split: option.splits)

text \<open>The loop from any state of its variables, which each line changes.\<close>

lemma stream_lines_plain:
  "plain_stream (decoded_events loads lines) \<Longrightarrow>
   stream_lines loads lines vars =
     Inr \<lparr>full_answer = full_answer vars @ spec_answer (decoded_events loads lines),
          conversation_id = first_provided (conversation_id vars #
             map (\<lambda>ev. event_field ev ''conversation_id'' JNull)
               (message_events (decoded_events loads lines)) @
             map (\<lambda>ev. event_field ev ''conversation_id'' JNull)
               (end_event (decoded_events loads lines))),
          message_id = first_provided (message_id vars #
             map (\<lambda>ev. event_field ev ''message_id'' JNull)
               (message_events (decoded_events loads lines)) @
             map (\<lambda>ev. event_field ev ''id'' JNull)
               (end_event (decoded_events loads lines)))\<rparr>"
proof (induction lines arbitrary: vars)
  case Nil
  show ?case
    by (simp add: decoded_events_def List.map_filter_simps spec_answer_def message_events_def
          before_end_def end_event_def first_provided_def)
next
  case (Cons line rest)
  show ?case
  proof (cases "line_event loads line")
    case None
    then have evs: "decoded_events loads (line # rest) = decoded_events loads rest"
      by (simp add: decoded_events_Cons)
    show ?thesis
      using Cons.IH [of vars] Cons.prems
      by (simp add: evs stream_lines_skip [OF None])
  next
    case (Some ev)
    then have evs: "decoded_events loads (line # rest) = ev # decoded_events loads rest"
      by (simp add: decoded_events_Cons)
    show ?thesis
    proof (cases "is_event ''message_end'' ev")
      case True
      show ?thesis
        unfolding evs stream_lines_end [OF Some True]
        using True
        by (simp add: spec_answer_def message_events_def before_end_def end_event_def
              first_provided_def)
    next
      case False
      from Cons.prems False have plain: "plain_event ev"
        and rest: "plain_stream (decoded_events loads rest)"
        by (simp_all add: evs plain_stream_def before_end_def)
      show ?thesis
      proof (cases "is_event ''message'' ev")
        case True
        show ?thesis
          unfolding evs stream_lines_message [OF Some plain True]
          using Cons.IH [OF rest] True False
          by (simp add: spec_answer_def message_events_def before_end_def end_event_def
                first_provided_step)
      next
        case notmsg: False
        show ?thesis
          unfolding evs stream_lines_other [OF Some plain notmsg False]
          using Cons.IH [OF rest] notmsg False
          by (simp add: spec_answer_def message_events_def before_end_def end_event_def)
      qed
    qed
  qed
qed

text \<open>
  C2. For a stream answered with status 200 whose events, up to the first
  \<^verbatim>\<open>message_end\<close>, are dictionaries other than \<^verbatim>\<open>error\<close> events with string chunks,
  \<^verbatim>\<open>_handle_streaming_response\<close> returns a dictionary of three entries. Its answer is
  the concatenation, in the order of the stream, of the \<^verbatim>\<open>answer\<close> fields of the
  \<^verbatim>\<open>message\<close> events read before the first \<^verbatim>\<open>message_end\<close>. Its conversation id and
  message id come from the first \<^verbatim>\<open>message\<close> event that provides one, and
  \<^verbatim>\<open>message_end\<close> (through its fields \<^verbatim>\<open>conversation_id\<close> and \<^verbatim>\<open>id\<close>) fills an id that
  is still missing. Nothing after the first \<^verbatim>\<open>message_end\<close> is read: the three values
  depend on the events before it and on that event only.
\<close>

theorem streaming_answer:
  assumes "plain_stream (decoded_events loads lines)"
  shows "handle_streaming_response loads 200 lines =
           Inr [(''answer'', JStr (spec_answer (decoded_events loads lines))),
                (''conversation_id'', spec_conversation_id (decoded_events loads lines)),
                (''message_id'', spec_message_id (decoded_events loads lines))]"
  using stream_lines_plain [OF assms,
          of "\<lparr>full_answer = [], conversation_id = JNull, message_id = JNull\<rparr>"]
  by (simp add: handle_streaming_response_def spec_conversation_id_def spec_message_id_def
        first_provided_Null)

lemma example_plain: "plain_stream (decoded_events example_loads example_lines)"
  by code_simp

lemma example_spec:
  "spec_answer (decoded_events example_loads example_lines) = ''Hello world''"
  "spec_conversation_id (decoded_events example_loads example_lines) = JStr ''conv-abc''"
  "spec_message_id (decoded_events example_loads example_lines) = JStr ''m-1''"
  by code_simp+

text \<open>The example of the specification: the chunks \<open>Hel\<close>, \<open>lo \<close> and \<open>world\<close>, then
  \<^verbatim>\<open>message_end\<close>, then a chunk that is never read.\<close>

theorem streaming_answer_witness:
  "plain_stream (decoded_events example_loads example_lines) \<and>
   handle_streaming_response example_loads 200 example_lines =
     Inr [(''answer'', JStr ''Hello world''),
          (''conversation_id'', JStr ''conv-abc''),
          (''message_id'', JStr ''m-1'')]"
  using streaming_answer [OF example_plain] example_plain
  by (simp add: example_spec)

section \<open>Properties of the web engine\<close>

subsection \<open>The steps of the task\<close>

lemma add_log_simps [simp]:
  "es_progress (add_log level msg st) = es_progress st"
  "es_status (add_log level msg st) = es_status st"
  "es_end_time (add_log level msg st) = es_end_time st"
  "es_task_id (add_log level msg st) = es_task_id st"
  by (simp_all add: add_log_def Let_def)

lemma set_progress_simps [simp]:
  "es_progress (set_progress f st) = f (es_progress st)"
  "es_status (set_progress f st) = es_status st"
  by (simp_all add: set_progress_def)

lemma post_loop_simps [simp]:
  "es_progress (c_state (post_loop now c)) = es_progress (c_state c)"
  "t_pc (c_task (post_loop now c)) = Finished"
  "t_cases (c_task (post_loop now c)) = t_cases (c_task c)"
  "t_cm (c_task (post_loop now c)) = t_cm (c_task c)"
  by (simp_all add: post_loop_def Let_def)

declare loop_from.simps [simp del]

text \<open>The retry step, case by case.\<close>

lemma attempt_exhausted:
  "web_max_retries \<le> a \<Longrightarrow>
   attempt repr send now i a result cid c = after_retry repr now i result None c"
  by (simp add: attempt_def)

lemma attempt_stopped:
  "es_status (c_state c) = Stopped \<Longrightarrow>
   attempt repr send now i a result cid c = after_retry repr now i result None c"
  by (simp add: attempt_def)

lemma attempt_answered:
  "a < web_max_retries \<Longrightarrow> es_status (c_state c) \<noteq> Stopped \<Longrightarrow>
   send (web_request (c_task c) i result cid) (c_world c) = (Inr response, w') \<Longrightarrow>
   attempt repr send now i a result cid c =
     after_retry repr now i result (Some response)
       (c\<lparr>c_effects := c_effects c @ [ApiCall (web_request (c_task c) i result cid)],
          c_world := w'\<rparr>)"
  by (simp add: attempt_def Let_def)

lemma attempt_retry:
  "a < web_max_retries - 1 \<Longrightarrow> es_status (c_state c) \<noteq> Stopped \<Longrightarrow>
   send (web_request (c_task c) i result cid) (c_world c) = (Inl e, w') \<Longrightarrow>
   attempt repr send now i a result cid c =
     (Suspend,
      c\<lparr>c_world := w',
        c_state := add_log ''warning''
                     (LogRetry web_retry_delay (a + 1) web_max_retries (exc_message e))
                     (c_state c),
        c_task := (c_task c)\<lparr>t_pc := AtRetry i (a + 1) result cid\<rparr>,
        c_effects := c_effects c @ [ApiCall (web_request (c_task c) i result cid),
                                    RetrySleep web_retry_delay]\<rparr>)"
  by (simp add: attempt_def Let_def web_max_retries_def)

lemma attempt_last:
  "a = web_max_retries - 1 \<Longrightarrow> es_status (c_state c) \<noteq> Stopped \<Longrightarrow>
   send (web_request (c_task c) i result cid) (c_world c) = (Inl e, w') \<Longrightarrow>
   attempt repr send now i a result cid c =
     case_exception i result e
       (c\<lparr>c_effects := c_effects c @ [ApiCall (web_request (c_task c) i result cid)],
          c_world := w'\<rparr>)"
  by (simp add: attempt_def Let_def web_max_retries_def)

text \<open>Every way through \<open>attempt\<close> is one of the five.\<close>

lemma attempt_cases:
  obtains
    (exhausted) "web_max_retries \<le> a"
  | (stopped) "es_status (c_state c) = Stopped"
  | (answered) response w' where
      "a < web_max_retries" "es_status (c_state c) \<noteq> Stopped"
      "send (web_request (c_task c) i result cid) (c_world c) = (Inr response, w')"
  | (retry) e w' where
      "a < web_max_retries - 1" "es_status (c_state c) \<noteq> Stopped"
      "send (web_request (c_task c) i result cid) (c_world c) = (Inl e, w')"
  | (last) e w' where
      "a = web_max_retries - 1" "es_status (c_state c) \<noteq> Stopped"
      "send (web_request (c_task c) i result cid) (c_world c) = (Inl e, w')"
proof (cases "web_max_retries \<le> a")
  case True
  then show ?thesis by (rule exhausted)
next
  case False
  note lt = this
  show ?thesis
  proof (cases "es_status (c_state c) = Stopped")
    case True
    then show ?thesis by (rule stopped)
  next
    case False
    obtain out w' where s: "send (web_request (c_task c) i result cid) (c_world c) = (out, w')"
      by (cases "send (web_request (c_task c) i result cid) (c_world c)")
    show ?thesis
    proof (cases out)
      case (Inr response)
      show ?thesis
        using lt False s Inr by (intro answered [of response w']) simp_all
    next
      case (Inl e)
      show ?thesis
      proof (cases "a < web_max_retries - 1")
        case True
        show ?thesis
          using True False s Inl by (intro retry [of e w']) simp_all
      next
        case nl: False
        show ?thesis
          using nl lt False s Inl by (intro last [of e w']) auto
      qed
    qed
  qed
qed

subsection \<open>The progress counters\<close>









lemma loop_from_done:
  "n \<le> i \<Longrightarrow> loop_from repr send now n i c = post_loop now c"
  by (subst loop_from.simps) simp

lemma loop_from_paused:
  "\<not> n \<le> i \<Longrightarrow> es_status (c_state c) = Paused \<Longrightarrow>
   loop_from repr send now n i c =
     c\<lparr>c_task := (c_task c)\<lparr>t_pc := AtLoop i\<rparr>, c_effects := c_effects c @ [PauseSleep 1]\<rparr>"
  by (subst loop_from.simps) simp

lemma loop_from_stopped:
  "\<not> n \<le> i \<Longrightarrow> es_status (c_state c) = Stopped \<Longrightarrow>
   loop_from repr send now n i c =
     post_loop now (c\<lparr>c_state := add_log ''warning'' LogStoppedByUser (c_state c)\<rparr>)"
  by (subst loop_from.simps) simp

lemma loop_from_suspend:
  "\<not> n \<le> i \<Longrightarrow> es_status (c_state c) \<noteq> Paused \<Longrightarrow> es_status (c_state c) \<noteq> Stopped \<Longrightarrow>
   begin_case repr send now i c = (Suspend, c') \<Longrightarrow>
   loop_from repr send now n i c = c'"
  by (subst loop_from.simps) simp

lemma loop_from_continue:
  "\<not> n \<le> i \<Longrightarrow> es_status (c_state c) \<noteq> Paused \<Longrightarrow> es_status (c_state c) \<noteq> Stopped \<Longrightarrow>
   begin_case repr send now i c = (Continue, c') \<Longrightarrow>
   loop_from repr send now n i c = loop_from repr send now n (i + 1) c'"
  by (subst loop_from.simps) simp












lemma control_progress [simp]:
  "es_progress (snd (pause_test st)) = es_progress st"
  "es_progress (snd (resume_test st)) = es_progress st"
  "es_progress (snd (stop_test now st)) = es_progress st"
  by (simp_all add: pause_test_def resume_test_def stop_test_def)














section \<open>Properties of the control operations\<close>

text \<open>
  C5. \<^verbatim>\<open>pause_test\<close> succeeds if and only if the status is \<^verbatim>\<open>running\<close>, and then
  the status is \<^verbatim>\<open>paused\<close>; \<^verbatim>\<open>resume_test\<close> succeeds if and only if the status is
  \<^verbatim>\<open>paused\<close>, and then the status is \<^verbatim>\<open>running\<close>; \<^verbatim>\<open>stop_test\<close> succeeds if and only
  if the status is \<^verbatim>\<open>running\<close> or \<^verbatim>\<open>paused\<close>, and then the status is \<^verbatim>\<open>stopped\<close> and the
  end time is the time of the request. From any other status each of them raises an
  \<^verbatim>\<open>HTTPException\<close> with the code 400 and leaves the execution state as it was.
\<close>

theorem control_operations:
  "(fst (pause_test st) = Inr TestPaused) = (es_status st = Running)
   \<and> (es_status st = Running \<longrightarrow> es_status (snd (pause_test st)) = Paused)
   \<and> (es_status st \<noteq> Running \<longrightarrow>
        pause_test st = (Inl (HTTPException 400 NotRunning), st))
   \<and> (fst (resume_test st) = Inr TestResumed) = (es_status st = Paused)
   \<and> (es_status st = Paused \<longrightarrow> es_status (snd (resume_test st)) = Running)
   \<and> (es_status st \<noteq> Paused \<longrightarrow>
        resume_test st = (Inl (HTTPException 400 NotPaused), st))
   \<and> (fst (stop_test now st) = Inr TestStopped)
       = (es_status st = Running \<or> es_status st = Paused)
   \<and> (es_status st = Running \<or> es_status st = Paused \<longrightarrow>
        es_status (snd (stop_test now st)) = Stopped \<and>
        es_end_time (snd (stop_test now st)) = Some now)
   \<and> (es_status st \<noteq> Running \<and> es_status st \<noteq> Paused \<longrightarrow>
        stop_test now st = (Inl (HTTPException 400 NotExecuting), st))"
  by (simp add: pause_test_def resume_test_def stop_test_def)

text \<open>The three operations from the status \<^verbatim>\<open>running\<close>, from \<^verbatim>\<open>paused\<close> and from
  \<^verbatim>\<open>completed\<close>.\<close>

theorem control_operations_witness:
  "es_status (state_in Running) = Running
   \<and> fst (pause_test (state_in Running)) = Inr TestPaused
   \<and> es_status (snd (pause_test (state_in Running))) = Paused
   \<and> resume_test (state_in Running) = (Inl (HTTPException 400 NotPaused), state_in Running)
   \<and> es_status (snd (stop_test ''12:00'' (state_in Running))) = Stopped
   \<and> es_end_time (snd (stop_test ''12:00'' (state_in Running))) = Some ''12:00''
   \<and> es_status (state_in Paused) = Paused
   \<and> pause_test (state_in Paused) = (Inl (HTTPException 400 NotRunning), state_in Paused)
   \<and> es_status (snd (resume_test (state_in Paused))) = Running
   \<and> es_status (snd (stop_test ''12:00'' (state_in Paused))) = Stopped
   \<and> es_status (state_in Completed) = Completed
   \<and> pause_test (state_in Completed) = (Inl (HTTPException 400 NotRunning), state_in Completed)
   \<and> resume_test (state_in Completed) = (Inl (HTTPException 400 NotPaused), state_in Completed)
   \<and> stop_test ''12:00'' (state_in Completed)
       = (Inl (HTTPException 400 NotExecuting), state_in Completed)"
proof -
  have s: "es_status (state_in Running) = Running" "es_status (state_in Paused) = Paused"
    "es_status (state_in Completed) = Completed"
    by (simp_all add: state_in_def)
  show ?thesis
    using control_operations [of "state_in Running" "''12:00''"]
          control_operations [of "state_in Paused" "''12:00''"]
          control_operations [of "state_in Completed" "''12:00''"]
    by (simp add: s)
qed



section \<open>Properties of the command-line engine\<close>

lemma upt3: "[0..<max_retries] = [0, 1, 2]"
  by (simp add: max_retries_def upt_rec)

lemma call_with_retry_three:
  "call_with_retry send req [0..<max_retries] w =
     (case send req w of
        (Inr r1, w1) \<Rightarrow> (Inr (Some r1), w1, [ApiCall req])
      | (Inl e1, w1) \<Rightarrow>
          (case send req w1 of
             (Inr r2, w2) \<Rightarrow>
               (Inr (Some r2), w2,
                [ApiCall req, RetryWarning 1 e1, RetrySleep retry_delay, ApiCall req])
           | (Inl e2, w2) \<Rightarrow>
               (case send req w2 of
                  (Inr r3, w3) \<Rightarrow>
                    (Inr (Some r3), w3,
                     [ApiCall req, RetryWarning 1 e1, RetrySleep retry_delay,
                      ApiCall req, RetryWarning 2 e2, RetrySleep retry_delay, ApiCall req])
                | (Inl e3, w3) \<Rightarrow>
                    (Inl e3, w3,
                     [ApiCall req, RetryWarning 1 e1, RetrySleep retry_delay,
                      ApiCall req, RetryWarning 2 e2, RetrySleep retry_delay, ApiCall req]))))"
  unfolding upt3 by (simp add: max_retries_def split: prod.splits sum.splits)

lemma is_case_sleep_simps [simp]:
  "is_case_sleep (CaseSleep d)" "\<not> is_case_sleep (ApiCall rq)"
  "\<not> is_case_sleep (RetryWarning k e)" "\<not> is_case_sleep (RetrySleep d)"
  "\<not> is_case_sleep (PauseSleep d)" "\<not> is_case_sleep (AppendResult res)"
  by (simp_all add: is_case_sleep_def)

lemma no_case_sleep_retry:
  "call_with_retry send req as w = (r, w', effs) \<Longrightarrow> filter is_case_sleep effs = []"
proof (induction as arbitrary: w r w' effs)
  case Nil
  then show ?case by simp
next
  case (Cons a as)
  show ?case
  proof (cases "send req w")
    case (Pair out w1)
    show ?thesis
    proof (cases out)
      case (Inr resp)
      with Pair Cons.prems show ?thesis by auto
    next
      case (Inl e)
      show ?thesis
      proof (cases "a < max_retries - 1")
        case False
        with Pair Inl Cons.prems show ?thesis by auto
      next
        case True
        obtain r2 w2 effs2 where rec: "call_with_retry send req as w1 = (r2, w2, effs2)"
          by (cases "call_with_retry send req as w1") auto
        from Cons.IH [OF rec] have "filter is_case_sleep effs2 = []" .
        with Pair Inl True rec Cons.prems show ?thesis
          by auto
      qed
    qed
  qed
qed

lemma no_case_sleep_process:
  "filter is_case_sleep (snd (snd (snd (process_test_case repr send u now tc t w)))) = []"
proof -
  let ?req = "cli_request u (tool_cm t) tc"
  obtain r w' effs where c: "call_with_retry send ?req [0..<max_retries] w = (r, w', effs)"
    by (cases "call_with_retry send ?req [0..<max_retries] w") auto
  have "filter is_case_sleep effs = []"
    using no_case_sleep_retry [OF c] .
  then show ?thesis
    by (simp add: process_test_case_def Let_def c split: sum.splits)
qed

lemma run_loop_sleeps:
  "int (length (filter is_case_sleep (snd (snd (snd (run_loop repr send u clock i n cases t w)))))) =
     max 0 (min (int i + int (length cases)) (int n - 1) - int i)"
proof (induction cases arbitrary: i t w)
  case Nil
  then show ?case by simp
next
  case (Cons tc cases)
  obtain result t' w' effs where p: "process_test_case repr send u (clock i) tc t w = (result, t', w', effs)"
    by (cases "process_test_case repr send u (clock i) tc t w") auto
  obtain results t'' w'' effs' where r: "run_loop repr send u clock (Suc i) n cases t' w' = (results, t'', w'', effs')"
    by (cases "run_loop repr send u clock (Suc i) n cases t' w'") auto
  have e: "filter is_case_sleep effs = []"
    using no_case_sleep_process [of repr send u "clock i" tc t w] by (simp add: p)
  have ih: "int (length (filter is_case_sleep effs')) =
     max 0 (min (int (Suc i) + int (length cases)) (int n - 1) - int (Suc i))"
    using Cons.IH [of "Suc i" t' w'] by (simp add: r)
  show ?case
  proof (cases "int i < int n - 1")
    case True
    then show ?thesis using ih by (simp add: p r e)
  next
    case False
    then show ?thesis using ih by (simp add: p r e)
  qed
qed

lemma run_sleeps:
  "length (filter is_case_sleep (snd (snd (snd (run repr send u clock cases w))))) = length cases - 2"
proof -
  let ?t = "new_tool\<lparr>tool_stats := (tool_stats new_tool)\<lparr>total_cases := length cases\<rparr>\<rparr>"
  have "int (length (filter is_case_sleep (snd (snd (snd (run_loop repr send u clock 1 (length cases) cases ?t w)))))) =
     max 0 (int (length cases) - 2)"
    using run_loop_sleeps [of repr send u clock 1 "length cases" cases ?t w] by simp
  then show ?thesis
    unfolding run_def by linarith
qed

lemma run_loop_length:
  "length (fst (run_loop repr send u clock i n cases t w)) = length cases"
proof (induction cases arbitrary: i t w)
  case Nil
  then show ?case by simp
next
  case (Cons tc cases)
  obtain result t' w' effs where
    p: "process_test_case repr send u (clock i) tc t w = (result, t', w', effs)"
    by (cases "process_test_case repr send u (clock i) tc t w") auto
  obtain results t'' w'' effs' where
    r: "run_loop repr send u clock (Suc i) n cases t' w' = (results, t'', w'', effs')"
    by (cases "run_loop repr send u clock (Suc i) n cases t' w'") auto
  show ?case
    using Cons.IH [of "Suc i" t' w'] by (simp add: p r)
qed

lemma process_test_case_failed:
  assumes "send (cli_request user_id (tool_cm t) tc) w = (Inl e1, w1)"
    and "send (cli_request user_id (tool_cm t) tc) w1 = (Inl e2, w2)"
    and "send (cli_request user_id (tool_cm t) tc) w2 = (Inl e3, w3)"
  shows "process_test_case repr send user_id now tc t w =
           ((new_result now tc)\<lparr>r_error_details := exc_message e3\<rparr>,
            t\<lparr>tool_stats := (tool_stats t)\<lparr>failed_cases := failed_cases (tool_stats t) + 1,
                                           processed_cases := processed_cases (tool_stats t) + 1\<rparr>\<rparr>,
            w3,
            [ApiCall (cli_request user_id (tool_cm t) tc),
             RetryWarning 1 e1, RetrySleep retry_delay,
             ApiCall (cli_request user_id (tool_cm t) tc),
             RetryWarning 2 e2, RetrySleep retry_delay,
             ApiCall (cli_request user_id (tool_cm t) tc)])"
  using assms
  by (simp add: process_test_case_def Let_def call_with_retry_three
           del: call_with_retry.simps)


section \<open>Properties of the retry loops\<close>

lemma web_request_pc [simp]:
  "web_request (tk\<lparr>t_pc := x\<rparr>) i result cid = web_request tk i result cid"
  by (simp add: web_request_def)

lemma finish_case_sleep:
  "int i < int (length (t_cases (c_task c))) - 1 \<Longrightarrow> es_status (c_state c) \<noteq> Stopped \<Longrightarrow>
   \<exists>st. finish_case i result c =
     (Suspend, c\<lparr>c_state := st,
                 c_task := (c_task c)\<lparr>t_results := t_results (c_task c) @ [result],
                                       t_pc := AtLoop (i + 1)\<rparr>,
                 c_effects := c_effects c @ [CaseSleep 2]\<rparr>) \<and>
     es_status st = es_status (c_state c) \<and>
     es_progress st = (es_progress (c_state c))
                        \<lparr>p_completed := p_completed (es_progress (c_state c)) + 1\<rparr>"
  apply (cases "t_response_times (c_task c) = []")
   apply (simp_all add: finish_case_def Let_def)
   apply (rule exI, rule conjI, rule refl, simp)
  apply (rule exI, rule conjI, rule refl, simp)
  done

lemma finish_case_no_sleep:
  "\<not> (int i < int (length (t_cases (c_task c))) - 1 \<and> es_status (c_state c) \<noteq> Stopped) \<Longrightarrow>
   \<exists>st. finish_case i result c =
     (Continue, c\<lparr>c_state := st,
                  c_task := (c_task c)\<lparr>t_results := t_results (c_task c) @ [result]\<rparr>\<rparr>)"
  by (auto simp add: finish_case_def Let_def)

lemma web_three_failures:
  fixes c :: "'w ctx"
  assumes pc: "t_pc (c_task c) = AtLoop i"
    and i: "i + 1 < length (t_cases (c_task c))"
    and run: "es_status (c_state c) = Running"
    and rq: "rq = web_request (c_task c) i (new_web_result nowa (c_task c) i)
                    (get_conversation_id (t_cm (c_task c))
                       (wc_conversation_id (t_cases (c_task c) ! i)))"
    and s1: "send rq (c_world c) = (Inl e1, w1)"
    and s2: "send rq w1 = (Inl e2, w2)"
    and s3: "send rq w2 = (Inl e3, w3)"
  shows "\<exists>c3. task_step repr send nowc
                 (task_step repr send nowb (task_step repr send nowa c)) = c3 \<and>
           t_results (c_task c3) =
             t_results (c_task c)
               @ [(new_web_result nowa (c_task c) i)\<lparr>wr_error_details := exc_message e3\<rparr>] \<and>
           t_pc (c_task c3) = AtLoop (i + 1) \<and>
           es_status (c_state c3) = Running \<and>
           es_progress (c_state c3) =
             (es_progress (c_state c))
               \<lparr>p_current := Some (case_id_of (t_cases (c_task c) ! i) i),
                p_failed := p_failed (es_progress (c_state c)) + 1,
                p_completed := p_completed (es_progress (c_state c)) + 1\<rparr> \<and>
           c_world c3 = w3 \<and>
           c_effects c3 =
             c_effects c @ [ApiCall rq, RetrySleep web_retry_delay,
                            ApiCall rq, RetrySleep web_retry_delay,
                            ApiCall rq, CaseSleep 2]"
proof -
  let ?tk = "c_task c"
  let ?tc = "t_cases ?tk ! i"
  let ?res = "new_web_result nowa ?tk i"
  let ?cid = "get_conversation_id (t_cm ?tk) (wc_conversation_id ?tc)"
  let ?n = "length (t_cases ?tk)"
  define c0 where "c0 = c\<lparr>c_state := add_log ''info''
      (LogCaseStart (i + 1) ?n (py_take 50 (wc_user_question ?tc)))
      ((set_progress (\<lambda>p. p\<lparr>p_current := Some (case_id_of ?tc i)\<rparr>) (c_state c))
         \<lparr>es_current_response := []\<rparr>)\<rparr>"
  have b: "begin_case repr send nowa i c = attempt repr send nowa i 0 ?res ?cid c0"
    by (simp add: begin_case_def Let_def c0_def)
  have c0: "c_task c0 = ?tk" "c_world c0 = c_world c" "es_status (c_state c0) = Running"
    "c_effects c0 = c_effects c"
    "es_progress (c_state c0) =
       (es_progress (c_state c))\<lparr>p_current := Some (case_id_of ?tc i)\<rparr>"
    by (simp_all add: c0_def run)
  define c1 where "c1 = c0\<lparr>c_world := w1,
        c_state := add_log ''warning''
                     (LogRetry web_retry_delay (0 + 1) web_max_retries (exc_message e1))
                     (c_state c0),
        c_task := (c_task c0)\<lparr>t_pc := AtRetry i (0 + 1) ?res ?cid\<rparr>,
        c_effects := c_effects c0 @ [ApiCall (web_request (c_task c0) i ?res ?cid),
                                    RetrySleep web_retry_delay]\<rparr>"
  have a1: "attempt repr send nowa i 0 ?res ?cid c0 = (Suspend, c1)"
    unfolding c1_def
    by (rule attempt_retry [where e = e1]) (use s1 in \<open>simp_all add: c0 rq web_max_retries_def\<close>)
  have step1: "task_step repr send nowa c = c1"
    using i loop_from_suspend [where c = c and c' = c1 and n = ?n and i = i and repr = repr
                                and send = send and now = nowa]
    by (simp add: task_step_def pc Let_def run b a1)
  have c1: "c_task c1 = ?tk\<lparr>t_pc := AtRetry i 1 ?res ?cid\<rparr>" "c_world c1 = w1"
    "es_status (c_state c1) = Running"
    "c_effects c1 = c_effects c @ [ApiCall rq, RetrySleep web_retry_delay]"
    "es_progress (c_state c1) =
       (es_progress (c_state c))\<lparr>p_current := Some (case_id_of ?tc i)\<rparr>"
    by (simp_all add: c1_def c0 rq)
  define c2 where "c2 = c1\<lparr>c_world := w2,
        c_state := add_log ''warning''
                     (LogRetry web_retry_delay (1 + 1) web_max_retries (exc_message e2))
                     (c_state c1),
        c_task := (c_task c1)\<lparr>t_pc := AtRetry i (1 + 1) ?res ?cid\<rparr>,
        c_effects := c_effects c1 @ [ApiCall (web_request (c_task c1) i ?res ?cid),
                                    RetrySleep web_retry_delay]\<rparr>"
  have a2: "attempt repr send nowb i 1 ?res ?cid c1 = (Suspend, c2)"
    unfolding c2_def
    by (rule attempt_retry [where e = e2]) (use s2 in \<open>simp_all add: c1 rq web_max_retries_def\<close>)
  have step2: "task_step repr send nowb c1 = c2"
    by (simp add: task_step_def c1(1) Let_def a2 del: One_nat_def)
  have c2: "c_task c2 = ?tk\<lparr>t_pc := AtRetry i 2 ?res ?cid\<rparr>" "c_world c2 = w2"
    "es_status (c_state c2) = Running"
    "c_effects c2 = c_effects c @ [ApiCall rq, RetrySleep web_retry_delay,
                                   ApiCall rq, RetrySleep web_retry_delay]"
    "es_progress (c_state c2) =
       (es_progress (c_state c))\<lparr>p_current := Some (case_id_of ?tc i)\<rparr>"
    by (simp_all add: c2_def c1 rq)
  let ?c2' = "c2\<lparr>c_effects := c_effects c2 @ [ApiCall (web_request (c_task c2) i ?res ?cid)],
                 c_world := w3\<rparr>"
  have a3: "attempt repr send nowc i 2 ?res ?cid c2 = case_exception i ?res e3 ?c2'"
    by (rule attempt_last) (use s3 in \<open>simp_all add: c2 rq web_max_retries_def\<close>)
  let ?c2'' = "?c2'\<lparr>c_state := add_log ''error'' (LogCaseFailed (i + 1) (exc_message e3))
                   (set_progress (\<lambda>p. p\<lparr>p_failed := p_failed p + 1\<rparr>) (c_state ?c2'))\<rparr>"
  have ce: "case_exception i ?res e3 ?c2' =
              finish_case i (?res\<lparr>wr_error_details := exc_message e3\<rparr>) ?c2''"
    by (simp add: case_exception_def Let_def)
  obtain st where
    fc: "finish_case i (?res\<lparr>wr_error_details := exc_message e3\<rparr>) ?c2'' =
           (Suspend, ?c2''\<lparr>c_state := st,
              c_task := (c_task ?c2'')\<lparr>t_results := t_results (c_task ?c2'')
                            @ [?res\<lparr>wr_error_details := exc_message e3\<rparr>],
                          t_pc := AtLoop (i + 1)\<rparr>,
              c_effects := c_effects ?c2'' @ [CaseSleep 2]\<rparr>)"
    and st: "es_status st = es_status (c_state ?c2'')"
      "es_progress st = (es_progress (c_state ?c2''))
                          \<lparr>p_completed := p_completed (es_progress (c_state ?c2'')) + 1\<rparr>"
    using finish_case_sleep [of i ?c2'' "?res\<lparr>wr_error_details := exc_message e3\<rparr>"] i
    by (auto simp add: c2)
  have t3: "task_step repr send nowc c2 =
              (case attempt repr send nowc i 2 ?res ?cid c2 of
                 (Suspend, c') \<Rightarrow> c'
               | (Continue, c') \<Rightarrow> loop_from repr send nowc ?n (i + 1) c')"
    by (simp add: task_step_def c2(1) Let_def del: One_nat_def)
  have step3: "task_step repr send nowc c2 =
                 ?c2''\<lparr>c_state := st,
                   c_task := (c_task ?c2'')\<lparr>t_results := t_results (c_task ?c2'')
                            @ [?res\<lparr>wr_error_details := exc_message e3\<rparr>],
                          t_pc := AtLoop (i + 1)\<rparr>,
                   c_effects := c_effects ?c2'' @ [CaseSleep 2]\<rparr>"
    unfolding t3 a3 ce fc by simp
  show ?thesis
    by (simp add: step1 step2 step3 st c2 rq)
qed




lemma new_result_failed [simp]: "r_api_status (new_result now tc) = ''failed''"
  by (simp add: new_result_def)

lemma new_web_result_failed [simp]: "wr_api_status (new_web_result now tk i) = ''failed''"
  by (simp add: new_web_result_def Let_def)

text \<open>
  C7. When the client raises on all three attempts of a case, the case has one
  result, with the status \<^verbatim>\<open>failed\<close> and the message of the last exception as its error
  detail, and the loop goes on with the next case. In \<^verbatim>\<open>main.py\<close> the results of the run
  are that result followed by the results of the later cases, one for each case. In
  \<^verbatim>\<open>execution.py\<close> the three steps of the task append that result to the results of the
  task, count the case as failed and as completed, leave the status \<^verbatim>\<open>running\<close> and
  leave the task at the top of the next iteration.
\<close>

theorem retry_exhaustion:
  "(send (cli_request user_id (tool_cm t) tc) w = (Inl ea, wa) \<and>
    send (cli_request user_id (tool_cm t) tc) wa = (Inl eb, wb) \<and>
    send (cli_request user_id (tool_cm t) tc) wb = (Inl ec, wc) \<longrightarrow>
      fst (run_loop repr send user_id clock i n (tc # later) t w) =
        (new_result (clock i) tc)\<lparr>r_error_details := exc_message ec\<rparr>
        # fst (run_loop repr send user_id clock (i + 1) n later
                 (t\<lparr>tool_stats := (tool_stats t)
                       \<lparr>failed_cases := failed_cases (tool_stats t) + 1,
                        processed_cases := processed_cases (tool_stats t) + 1\<rparr>\<rparr>) wc) \<and>
      r_api_status (hd (fst (run_loop repr send user_id clock i n (tc # later) t w))) =
        ''failed'' \<and>
      length (fst (run_loop repr send user_id clock i n (tc # later) t w)) =
        1 + length later)
   \<and> (t_pc (c_task c) = AtLoop k \<and> k + 1 < length (t_cases (c_task c)) \<and>
       es_status (c_state c) = Running \<and>
       rq = web_request (c_task c) k (new_web_result ua (c_task c) k)
              (get_conversation_id (t_cm (c_task c))
                 (wc_conversation_id (t_cases (c_task c) ! k))) \<and>
       wsend rq (c_world c) = (Inl xa, va) \<and> wsend rq va = (Inl xb, vb) \<and>
       wsend rq vb = (Inl xc, vc) \<longrightarrow>
       t_results (c_task (task_step repr wsend uc
                            (task_step repr wsend ub (task_step repr wsend ua c)))) =
         t_results (c_task c)
           @ [(new_web_result ua (c_task c) k)\<lparr>wr_error_details := exc_message xc\<rparr>] \<and>
       wr_api_status (new_web_result ua (c_task c) k) = ''failed'' \<and>
       t_pc (c_task (task_step repr wsend uc
                       (task_step repr wsend ub (task_step repr wsend ua c)))) =
         AtLoop (k + 1) \<and>
       es_status (c_state (task_step repr wsend uc
                       (task_step repr wsend ub (task_step repr wsend ua c)))) = Running \<and>
       p_failed (es_progress (c_state (task_step repr wsend uc
                       (task_step repr wsend ub (task_step repr wsend ua c))))) =
         p_failed (es_progress (c_state c)) + 1 \<and>
       p_completed (es_progress (c_state (task_step repr wsend uc
                       (task_step repr wsend ub (task_step repr wsend ua c))))) =
         p_completed (es_progress (c_state c)) + 1)"
proof -
  have cli: "fst (run_loop repr send user_id clock i n (tc # later) t w) =
        (new_result (clock i) tc)\<lparr>r_error_details := exc_message ec\<rparr>
        # fst (run_loop repr send user_id clock (i + 1) n later
                 (t\<lparr>tool_stats := (tool_stats t)
                       \<lparr>failed_cases := failed_cases (tool_stats t) + 1,
                        processed_cases := processed_cases (tool_stats t) + 1\<rparr>\<rparr>) wc) \<and>
      r_api_status (hd (fst (run_loop repr send user_id clock i n (tc # later) t w))) =
        ''failed'' \<and>
      length (fst (run_loop repr send user_id clock i n (tc # later) t w)) =
        1 + length later"
    if "send (cli_request user_id (tool_cm t) tc) w = (Inl ea, wa)"
       "send (cli_request user_id (tool_cm t) tc) wa = (Inl eb, wb)"
       "send (cli_request user_id (tool_cm t) tc) wb = (Inl ec, wc)"
    using run_loop_length [of repr send user_id clock i n "tc # later" t w]
    by (simp add: process_test_case_failed [where send = send and repr = repr
                    and now = "clock i", OF that] split: prod.splits)
  have web: "t_results (c_task (task_step repr wsend uc
                            (task_step repr wsend ub (task_step repr wsend ua c)))) =
         t_results (c_task c)
           @ [(new_web_result ua (c_task c) k)\<lparr>wr_error_details := exc_message xc\<rparr>] \<and>
       wr_api_status (new_web_result ua (c_task c) k) = ''failed'' \<and>
       t_pc (c_task (task_step repr wsend uc
                       (task_step repr wsend ub (task_step repr wsend ua c)))) =
         AtLoop (k + 1) \<and>
       es_status (c_state (task_step repr wsend uc
                       (task_step repr wsend ub (task_step repr wsend ua c)))) = Running \<and>
       p_failed (es_progress (c_state (task_step repr wsend uc
                       (task_step repr wsend ub (task_step repr wsend ua c))))) =
         p_failed (es_progress (c_state c)) + 1 \<and>
       p_completed (es_progress (c_state (task_step repr wsend uc
                       (task_step repr wsend ub (task_step repr wsend ua c))))) =
         p_completed (es_progress (c_state c)) + 1"
    if "t_pc (c_task c) = AtLoop k" "k + 1 < length (t_cases (c_task c))"
       "es_status (c_state c) = Running"
       "rq = web_request (c_task c) k (new_web_result ua (c_task c) k)
              (get_conversation_id (t_cm (c_task c))
                 (wc_conversation_id (t_cases (c_task c) ! k)))"
       "wsend rq (c_world c) = (Inl xa, va)" "wsend rq va = (Inl xb, vb)"
       "wsend rq vb = (Inl xc, vc)"
    using web_three_failures [where send = wsend and repr = repr and nowc = uc and nowb = ub,
                               OF that]
    by simp
  show ?thesis
    using cli web by blast
qed

text \<open>A client that fails at every call, on the two cases of the examples.\<close>

theorem retry_exhaustion_witness:
  "failing_client example_request 0 = (Inl timeout_error, 1)
   \<and> failing_client example_request 1 = (Inl timeout_error, 2)
   \<and> failing_client example_request 2 = (Inl timeout_error, 3)
   \<and> fst (run_loop example_repr failing_client ''u'' example_clock 1 2
            [example_case 1, example_case 2] new_tool 0) =
       [example_failed_result 1, example_failed_result 2]
   \<and> map wr_api_status
         (t_results (c_task (task_step example_repr failing_client ''t3''
            (task_step example_repr failing_client ''t2''
               (task_step example_repr failing_client ''t1'' example_ctx))))) = [''failed'']
   \<and> map wr_error_details
         (t_results (c_task (task_step example_repr failing_client ''t3''
            (task_step example_repr failing_client ''t2''
               (task_step example_repr failing_client ''t1'' example_ctx))))) = [''timeout'']
   \<and> t_pc (c_task (task_step example_repr failing_client ''t3''
            (task_step example_repr failing_client ''t2''
               (task_step example_repr failing_client ''t1'' example_ctx)))) = AtLoop 1"
proof -
  have p: "t_pc (c_task example_ctx) = AtLoop 0"
    "length (t_cases (c_task example_ctx)) = 2"
    "es_status (c_state example_ctx) = Running"
    "web_request (c_task example_ctx) 0 (new_web_result ''t1'' (c_task example_ctx) 0)
       (get_conversation_id (t_cm (c_task example_ctx))
          (wc_conversation_id (t_cases (c_task example_ctx) ! 0))) = example_request"
    "c_world example_ctx = 0" "t_results (c_task example_ctx) = []"
    "cli_request ''u'' (tool_cm new_tool) (example_case 1) = example_request"
    by code_simp+
  have f: "failing_client example_request k = (Inl timeout_error, k + 1)" for k
    by (simp add: failing_client_def timeout_error_def)
  have m: "exc_message timeout_error = ''timeout''"
    by (simp add: timeout_error_def)
  have r: "(new_result (example_clock 1) (example_case 1))\<lparr>r_error_details := ''timeout''\<rparr>
             = example_failed_result 1"
    by code_simp
  have rest: "fst (run_loop example_repr failing_client ''u'' example_clock 2 2 [example_case 2]
                (new_tool\<lparr>tool_stats := (tool_stats new_tool)
                       \<lparr>failed_cases := failed_cases (tool_stats new_tool) + 1,
                        processed_cases := processed_cases (tool_stats new_tool) + 1\<rparr>\<rparr>) 3)
              = [example_failed_result 2]"
    by code_simp
  show ?thesis
    using retry_exhaustion [where send = failing_client and user_id = "''u''" and t = new_tool
                        and tc = "example_case 1" and w = 0 and ea = timeout_error
                        and eb = timeout_error and ec = timeout_error
                        and wa = 1 and wb = 2 and wc = 3 and repr = example_repr
                        and clock = example_clock and i = 1 and n = 2
                        and later = "[example_case 2]"
                        and c = example_ctx and k = 0 and rq = example_request
                        and ua = "''t1''" and ub = "''t2''" and uc = "''t3''"
                        and wsend = failing_client
                        and xa = timeout_error and xb = timeout_error and xc = timeout_error
                        and va = 1 and vb = 2 and vc = 3]
    by (simp add: p f m r rest del: run_loop.simps One_nat_def)
qed


section \<open>The delay between two cases\<close>

lemma finish_case_delay:
  "c_effects (snd (finish_case i result c)) =
     c_effects c @ (if int i < int (length (t_cases (c_task c))) - 1 \<and>
                       es_status (c_state c) \<noteq> Stopped
                    then [CaseSleep 2] else [])"
  by (simp add: finish_case_def Let_def)

text \<open>
  C8 fails in the command-line engine. The loop of \<^verbatim>\<open>run\<close> in \<^verbatim>\<open>main.py\<close> counts the cases from 1 and sleeps after
  case \<open>i\<close> when \<^verbatim>\<open>i < len(test_cases) - 1\<close>: so it sleeps after the cases 1 to \<open>N - 2\<close>
  and neither after the last case nor after the one before it. A run of \<open>N\<close> cases takes
  \<open>N - 2\<close> delays between cases (none when \<open>N \<le> 2\<close>), where a delay after every case
  but the last would be \<open>N - 1\<close>. The loop of \<^verbatim>\<open>execution.py\<close> counts the cases from 0
  with the same test and does sleep after every case but the last.
\<close>

theorem inter_case_delay:
  "length (filter is_case_sleep (snd (snd (snd (run repr send user_id clock cases w)))))
     = length cases - 2"
  by (rule run_sleeps)

text \<open>A run of two cases: the second call of the client follows the first result at
  once.\<close>

theorem inter_case_delay_two_cases:
  "snd (snd (snd (run example_repr ok_client ''u'' example_clock
                    [example_case 1, example_case 2] 0))) =
     [ApiCall example_request,
      AppendResult (hd (fst (run example_repr ok_client ''u'' example_clock
                               [example_case 1, example_case 2] 0))),
      ApiCall (example_request\<lparr>rq_conversation_id := Some ''conv-abc''\<rparr>),
      AppendResult (last (fst (run example_repr ok_client ''u'' example_clock
                               [example_case 1, example_case 2] 0)))]"
  by code_simp


section \<open>Properties of the stored conversation ids\<close>

lemma ids_safe_refl [simp]: "ids_safe cm cm"
  by (simp add: ids_safe_def keeps_ids_def)

lemma ids_safe_trans: "ids_safe a b \<Longrightarrow> ids_safe b c \<Longrightarrow> ids_safe a c"
  unfolding ids_safe_def keeps_ids_def by blast

lemma get_set_conversation_id:
  "get_conversation_id (set_conversation_id now cm g cid) g' =
     (if g' = g then Some cid else get_conversation_id cm g')"
  by (simp add: get_conversation_id_def set_conversation_id_def Let_def dict_set_def update_conv')

lemma update_conversation_id_cases:
  "update_conversation_id repr now cm g api_response = cm \<or>
   (\<exists>cid. cid \<noteq> [] \<and>
      update_conversation_id repr now cm g api_response = set_conversation_id now cm g cid)"
  by (auto simp add: update_conversation_id_def split: option.splits)

lemma set_conversation_id_safe:
  "cid \<noteq> [] \<Longrightarrow> ids_safe cm (set_conversation_id now cm g cid)"
  by (auto simp add: ids_safe_def keeps_ids_def ids_not_empty_def get_set_conversation_id)

lemma update_conversation_id_safe:
  "ids_safe cm (update_conversation_id repr now cm g api_response)"
  using update_conversation_id_cases [of repr now cm g api_response]
  by (auto simp add: set_conversation_id_safe)

lemma process_test_case_cm:
  "tool_cm (fst (snd (process_test_case repr send user_id now tc t w))) = tool_cm t \<or>
   (\<exists>api_response.
      tool_cm (fst (snd (process_test_case repr send user_id now tc t w))) =
        update_conversation_id repr now (tool_cm t) (tc_conversation_group_id tc) api_response)"
  by (auto simp add: process_test_case_def Let_def split: prod.splits sum.splits)

lemma process_test_case_safe:
  "ids_safe (tool_cm t) (tool_cm (fst (snd (process_test_case repr send user_id now tc t w))))"
  using process_test_case_cm [of repr send user_id now tc t w]
  by (auto simp add: update_conversation_id_safe)

lemma run_loop_safe:
  "ids_safe (tool_cm t) (tool_cm (fst (snd (run_loop repr send user_id clock i n cases t w))))"
proof (induction cases arbitrary: i t w)
  case Nil
  then show ?case by simp
next
  case (Cons tc cases)
  obtain result t' w' effs where
    p: "process_test_case repr send user_id (clock i) tc t w = (result, t', w', effs)"
    by (cases "process_test_case repr send user_id (clock i) tc t w") auto
  obtain results t'' w'' effs' where
    r: "run_loop repr send user_id clock (Suc i) n cases t' w' = (results, t'', w'', effs')"
    by (cases "run_loop repr send user_id clock (Suc i) n cases t' w'") auto
  have a: "ids_safe (tool_cm t) (tool_cm t')"
    using process_test_case_safe [of t repr send user_id "clock i" tc w] by (simp add: p)
  have b: "ids_safe (tool_cm t') (tool_cm t'')"
    using Cons.IH [of t' "Suc i" w'] by (simp add: r)
  show ?case
    using ids_safe_trans [OF a b] by (simp add: p r)
qed

text \<open>The web engine.\<close>

lemma finish_case_cm [simp]:
  "t_cm (c_task (snd (finish_case i result c))) = t_cm (c_task c)"
  by (simp add: finish_case_def Let_def)

lemma record_success_safe:
  "ids_safe (t_cm (c_task c)) (t_cm (c_task (snd (record_success repr now i result d rt c))))"
  by (simp add: record_success_def Let_def update_conversation_id_safe)

lemma record_no_response_cm [simp]:
  "t_cm (c_task (snd (record_no_response i result c))) = t_cm (c_task c)"
  by (simp add: record_no_response_def Let_def)

lemma after_retry_safe:
  "ids_safe (t_cm (c_task c)) (t_cm (c_task (snd (after_retry repr now i result r c))))"
  using record_success_safe
          [of "c\<lparr>c_task := (c_task c)\<lparr>t_response_times := t_response_times (c_task c) @
                    [case r of None \<Rightarrow> 0 | Some (d, rt) \<Rightarrow> rt]\<rparr>\<rparr>" repr now i]
  by (simp add: after_retry_def Let_def)

lemma case_exception_cm [simp]:
  "t_cm (c_task (snd (case_exception i result e c))) = t_cm (c_task c)"
  by (simp add: case_exception_def Let_def)

lemma attempt_safe:
  "ids_safe (t_cm (c_task c)) (t_cm (c_task (snd (attempt repr send now i a result cid c))))"
proof (cases rule: attempt_cases [where a = a and c = c and send = send and i = i and result = result and cid = cid])
  case exhausted
  show ?thesis
    unfolding attempt_exhausted [OF exhausted] by (rule after_retry_safe)
next
  case stopped
  show ?thesis
    unfolding attempt_stopped [OF stopped] by (rule after_retry_safe)
next
  case (answered response w')
  show ?thesis
    unfolding attempt_answered [where send = send and c = c, OF answered]
    using after_retry_safe
            [of "c\<lparr>c_effects := c_effects c @ [ApiCall (web_request (c_task c) i result cid)],
                   c_world := w'\<rparr>" repr now i result "Some response"]
    by simp
next
  case (retry e w')
  show ?thesis
    unfolding attempt_retry [where send = send and c = c, OF retry] by simp
next
  case (last e w')
  show ?thesis
    unfolding attempt_last [where send = send and c = c, OF last] by simp
qed

lemma begin_case_safe:
  "ids_safe (t_cm (c_task c)) (t_cm (c_task (snd (begin_case repr send now i c))))"
proof -
  let ?c0 = "c\<lparr>c_state := add_log ''info''
      (LogCaseStart (i + 1) (length (t_cases (c_task c)))
         (py_take 50 (wc_user_question (t_cases (c_task c) ! i))))
      ((set_progress (\<lambda>p. p\<lparr>p_current := Some (case_id_of (t_cases (c_task c) ! i) i)\<rparr>)
          (c_state c))\<lparr>es_current_response := []\<rparr>)\<rparr>"
  show ?thesis
    using attempt_safe [of ?c0 repr send now i 0]
    by (simp add: begin_case_def Let_def)
qed

lemma loop_from_safe:
  "ids_safe (t_cm (c_task c)) (t_cm (c_task (loop_from repr send now n i c)))"
proof (induction repr send now n i c rule: loop_from.induct)
  case (1 repr send now n i c)
  show ?case
  proof (cases "n \<le> i")
    case True
    show ?thesis
      unfolding loop_from_done [OF True] by simp
  next
    case False
    note live = this
    show ?thesis
    proof (cases "es_status (c_state c) = Paused")
      case True
      show ?thesis
        unfolding loop_from_paused [OF live True] by simp
    next
      case np: False
      show ?thesis
      proof (cases "es_status (c_state c) = Stopped")
        case True
        show ?thesis
          unfolding loop_from_stopped [OF live True] by simp
      next
        case ns: False
        obtain fl c' where b: "begin_case repr send now i c = (fl, c')"
          by (cases "begin_case repr send now i c")
        have ok': "ids_safe (t_cm (c_task c)) (t_cm (c_task c'))"
          using begin_case_safe [of c repr send now i] by (simp add: b)
        show ?thesis
        proof (cases fl)
          case Suspend
          show ?thesis
            unfolding loop_from_suspend [OF live np ns b [unfolded Suspend]] by (rule ok')
        next
          case Continue
          show ?thesis
            unfolding loop_from_continue [OF live np ns b [unfolded Continue]]
            by (rule ids_safe_trans [OF ok' "1.IH" [OF live np ns b [symmetric] Continue]])
        qed
      qed
    qed
  qed
qed

lemma task_step_safe:
  "ids_safe (t_cm (c_task c)) (t_cm (c_task (task_step repr send now c)))"
proof (cases "t_pc (c_task c)")
  case AtStart
  show ?thesis
  proof (cases "t_init_error (c_task c)")
    case None
    show ?thesis
      using loop_from_safe
              [of "c\<lparr>c_task := (c_task c)\<lparr>t_task_id := es_task_id (c_state c)\<rparr>,
                     c_state := add_log ''info'' LogEngineReady (c_state c)\<rparr>"
                  repr send now "length (t_cases (c_task c))" 0]
      by (simp add: task_step_def Let_def AtStart None)
  next
    case (Some msg)
    show ?thesis
      by (simp add: task_step_def Let_def AtStart Some run_error_def)
  qed
next
  case (AtLoop i)
  then show ?thesis
    by (simp add: task_step_def Let_def loop_from_safe)
next
  case (AtRetry i a result cid)
  obtain fl c' where b: "attempt repr send now i a result cid c = (fl, c')"
    by (cases "attempt repr send now i a result cid c")
  have ok': "ids_safe (t_cm (c_task c)) (t_cm (c_task c'))"
    using attempt_safe [of c repr send now i a result cid] by (simp add: b)
  show ?thesis
  proof (cases fl)
    case Suspend
    then show ?thesis using ok' by (simp add: task_step_def Let_def AtRetry b)
  next
    case Continue
    show ?thesis
      using ids_safe_trans [OF ok' loop_from_safe [of c' repr send now
                                      "length (t_cases (c_task c))" "i + 1"]] Continue
      by (simp add: task_step_def Let_def AtRetry b)
  qed
next
  case Finished
  then show ?thesis
    by (simp add: task_step_def Let_def)
qed

lemma apply_action_safe:
  assumes "k < length (sys_tasks s)"
  shows "k < length (sys_tasks (apply_action repr send act s)) \<and>
         ids_safe (t_cm (sys_tasks s ! k)) (t_cm (sys_tasks (apply_action repr send act s) ! k))"
proof (cases act)
  case (Start env init_error)
  obtain response st spawn where st: "start_test env (sys_state s) = (response, st, spawn)"
    by (cases "start_test env (sys_state s)")
  show ?thesis
    using assms by (cases spawn) (auto simp add: apply_action_def Start st nth_append)
next
  case Pause
  then show ?thesis using assms by (simp add: apply_action_def)
next
  case Resume
  then show ?thesis using assms by (simp add: apply_action_def)
next
  case (Stop now)
  then show ?thesis using assms by (simp add: apply_action_def)
next
  case (Step j now)
  show ?thesis
  proof (cases "j < length (sys_tasks s)")
    case True
    show ?thesis
    proof (cases "j = k")
      case same: True
      show ?thesis
        using assms True same
          task_step_safe [of "\<lparr>c_state = sys_state s, c_task = sys_tasks s ! k,
                         c_world = sys_world s, c_effects = sys_effects s\<rparr>" repr send now]
        by (simp add: apply_action_def Step Let_def)
    next
      case False
      then show ?thesis
        using assms True by (simp add: apply_action_def Step Let_def)
    qed
  next
    case False
    then show ?thesis using assms by (simp add: apply_action_def Step)
  qed
qed

lemma exec_safe:
  "k < length (sys_tasks s) \<Longrightarrow>
   k < length (sys_tasks (exec repr send acts s)) \<and>
   ids_safe (t_cm (sys_tasks s ! k)) (t_cm (sys_tasks (exec repr send acts s) ! k))"
proof (induction acts arbitrary: s)
  case Nil
  then show ?case by simp
next
  case (Cons act acts)
  have a: "k < length (sys_tasks (apply_action repr send act s))"
    and b: "ids_safe (t_cm (sys_tasks s ! k))
              (t_cm (sys_tasks (apply_action repr send act s) ! k))"
    using apply_action_safe [OF Cons.prems, of repr send act] by simp_all
  show ?case
    using Cons.IH [OF a] ids_safe_trans [OF b] by simp
qed

lemma get_conversation_id_new: "get_conversation_id new_conversation_manager g = None"
  by (simp add: get_conversation_id_def new_conversation_manager_def)

text \<open>
  C6. A case stores a conversation id at most once, and only one that is not
  empty: after \<^verbatim>\<open>process_test_case\<close> the store is the one before, or the one before with
  one call of \<^verbatim>\<open>set_conversation_id\<close> for the group of the case, with an id that is not
  empty. So a group that has an id which is not empty has one after every run of the
  loop of \<^verbatim>\<open>main.py\<close> and after every sequence of requests and task steps of
  \<^verbatim>\<open>execution.py\<close>, and a store without an empty id stays one. (The engines are what
  keeps the id: \<^verbatim>\<open>set_conversation_id\<close> stores any text it is given and the two engines
  call it for a text that is not empty only; neither engine calls \<^verbatim>\<open>clear_conversation\<close>
  or \<^verbatim>\<open>clear_all_conversations\<close>.)
\<close>

theorem conversation_id_kept:
  "(tool_cm (fst (snd (process_test_case repr send user_id now tc t w))) = tool_cm t \<or>
    (\<exists>cid. cid \<noteq> [] \<and>
       tool_cm (fst (snd (process_test_case repr send user_id now tc t w))) =
         set_conversation_id now (tool_cm t) (tc_conversation_group_id tc) cid))
   \<and> (get_conversation_id (tool_cm t) g = Some x \<and> x \<noteq> [] \<longrightarrow>
        (\<exists>y. get_conversation_id
                (tool_cm (fst (snd (run_loop repr send user_id clock i n cases t w)))) g = Some y
              \<and> y \<noteq> []))
   \<and> (ids_not_empty (tool_cm t) \<longrightarrow>
        ids_not_empty (tool_cm (fst (snd (run_loop repr send user_id clock i n cases t w)))))
   \<and> (k < length (sys_tasks s) \<and> get_conversation_id (t_cm (sys_tasks s ! k)) g = Some x \<and>
       x \<noteq> [] \<longrightarrow>
        (\<exists>y. get_conversation_id (t_cm (sys_tasks (exec repr wsend acts s) ! k)) g = Some y
              \<and> y \<noteq> []))
   \<and> (k < length (sys_tasks s) \<and> ids_not_empty (t_cm (sys_tasks s ! k)) \<longrightarrow>
        ids_not_empty (t_cm (sys_tasks (exec repr wsend acts s) ! k)))"
proof -
  have once: "tool_cm (fst (snd (process_test_case repr send user_id now tc t w))) = tool_cm t \<or>
    (\<exists>cid. cid \<noteq> [] \<and>
       tool_cm (fst (snd (process_test_case repr send user_id now tc t w))) =
         set_conversation_id now (tool_cm t) (tc_conversation_group_id tc) cid)"
    using process_test_case_cm [of repr send user_id now tc t w]
          update_conversation_id_cases [of repr now "tool_cm t" "tc_conversation_group_id tc"]
    by metis
  have cli: "ids_safe (tool_cm t)
               (tool_cm (fst (snd (run_loop repr send user_id clock i n cases t w))))"
    by (rule run_loop_safe)
  have web: "ids_safe (t_cm (sys_tasks s ! k)) (t_cm (sys_tasks (exec repr wsend acts s) ! k))"
    if "k < length (sys_tasks s)"
    using exec_safe [OF that, of repr wsend acts] by simp
  show ?thesis
    using once cli web unfolding ids_safe_def keeps_ids_def by blast
qed

text \<open>A stored id and a client whose responses carry a blank conversation id.\<close>

theorem conversation_id_kept_witness:
  "get_conversation_id (tool_cm tool_with_id) ''g1'' = Some ''conv-abc''
   \<and> (\<exists>y. get_conversation_id
             (tool_cm (fst (snd (run_loop example_repr no_id_client ''u'' example_clock 1 2
                                   [example_case 1, example_case 2] tool_with_id 0)))) ''g1''
             = Some y \<and> y \<noteq> [])
   \<and> ids_not_empty (tool_cm (fst (snd (run_loop example_repr no_id_client ''u'' example_clock 1 2
                                   [example_case 1, example_case 2] tool_with_id 0))))
   \<and> get_conversation_id (t_cm (sys_tasks system_with_id ! 0)) ''g1'' = Some ''conv-abc''
   \<and> (\<exists>y. get_conversation_id
             (t_cm (sys_tasks (exec example_repr no_id_client [Step 0 ''t2''] system_with_id) ! 0))
             ''g1'' = Some y \<and> y \<noteq> [])"
proof -
  have a: "get_conversation_id (tool_cm tool_with_id) ''g1'' = Some ''conv-abc''"
    by code_simp
  have b: "ids_not_empty (tool_cm tool_with_id)"
    by (simp add: ids_not_empty_def tool_with_id_def get_set_conversation_id
          get_conversation_id_new)
  have c: "0 < length (sys_tasks system_with_id)"
    "get_conversation_id (t_cm (sys_tasks system_with_id ! 0)) ''g1'' = Some ''conv-abc''"
    by code_simp+
  show ?thesis
    using conversation_id_kept
            [where t = tool_with_id and g = "''g1''" and x = "''conv-abc''"
               and repr = example_repr and send = no_id_client and user_id = "''u''"
               and clock = example_clock and i = 1 and n = 2
               and cases = "[example_case 1, example_case 2]" and w = 0
               and k = 0 and s = system_with_id and wsend = no_id_client
               and acts = "[Step 0 ''t2'']"]
          a b c
    by blast
qed

end
